theory Spec2Isabelle
  imports Complex_Main "HOL-Library.Sublist" "HOL-Library.AList"
begin

section \<open>Task 6: the DPA notebook (1_find_dpa.ipynb)\<close>

text \<open>
  The notebook reads the damage-energy tally (MT 444) back from the statepoint as a pandas
  dataframe, sums its \<open>mean\<close> column and scales the sum by hand to displacements per atom.
  The transport run and the stochastic volume calculation are external: their results, the
  column \<open>df['mean']\<close> and \<open>cell_vol_calc_results.volumes[1].nominal_value\<close>, are the
  inputs of the model. Python floats are modelled as real numbers, a float literal such as
  \<open>1.60218e-19\<close> as the real number it denotes.
\<close>

definition density_of_iron_in_g_per_cm3 :: real where
  "density_of_iron_in_g_per_cm3 = 7.75"

definition damage_energy_in_ev :: "real list \<Rightarrow> real" where
  \<comment> \<open>\<open>df['mean'].sum()\<close>\<close>
  "damage_energy_in_ev means = sum_list means"

definition displacements_per_source_neutron :: "real list \<Rightarrow> real" where
  "displacements_per_source_neutron means = damage_energy_in_ev means / (2 * 40)"

definition displacements_per_source_neutron_with_recombination :: "real list \<Rightarrow> real" where
  "displacements_per_source_neutron_with_recombination means =
     displacements_per_source_neutron means * 0.8"

definition fusion_power :: real where
  "fusion_power = 3 * 10 ^ 9"

definition energy_per_fusion_reaction :: real where
  "energy_per_fusion_reaction = 17.6 * 10 ^ 6"

definition eV_to_Joules :: real where
  "eV_to_Joules = 1.60218 / 10 ^ 19"

definition number_of_neutrons_per_second :: real where
  "number_of_neutrons_per_second =
     fusion_power / (energy_per_fusion_reaction * eV_to_Joules)"

definition number_of_neutrons_per_year :: real where
  "number_of_neutrons_per_year = number_of_neutrons_per_second * 60 * 60 * 24 * 365.25"

definition displacements_for_all_atoms :: "real list \<Rightarrow> real" where
  "displacements_for_all_atoms means =
     number_of_neutrons_per_year * displacements_per_source_neutron_with_recombination means"

definition iron_atomic_mass_in_g :: real where
  "iron_atomic_mass_in_g = 55.845 * (1.66054 / 10 ^ 24)"

definition number_of_iron_atoms :: "real \<Rightarrow> real" where
  "number_of_iron_atoms volume_of_firstwall_cell =
     volume_of_firstwall_cell * density_of_iron_in_g_per_cm3 / iron_atomic_mass_in_g"

text \<open>
  The last cell divides by the number of atoms. The numerator is a numpy float, so a zero
  divisor yields \<open>inf\<close> or \<open>nan\<close> rather than a number: that case is \<open>None\<close> here.
\<close>

definition DPA :: "real list \<Rightarrow> real \<Rightarrow> real option" where
  "DPA means volume_of_firstwall_cell =
     (if number_of_iron_atoms volume_of_firstwall_cell = 0 then None
      else Some (displacements_for_all_atoms means
                   / number_of_iron_atoms volume_of_firstwall_cell))"



section \<open>Files and directories\<close>

text \<open>
  Two notebooks save results with a helper \<open>output_result\<close> that creates the parent
  directory, opens the file for writing and dumps the result as JSON. The file system is a
  set of directories and a map from paths to contents; a path is its list of components,
  relative to the working directory (the empty path). The operations follow Python's
  \<open>pathlib\<close> and \<open>open\<close> on plain relative file names, such as the notebooks use:
  every exception they raise there is an error value. Symbolic links and permissions are
  not modelled.
\<close>

datatype error =
    FileNotFoundError | FileExistsError | NotADirectoryError | IsADirectoryError
  | KeyError | IndexError | ValueError | TypeError | RuntimeError

datatype json = JNum real | JStr string | JArr "json list" | JObj "(string \<times> json) list"

type_synonym path = "string list"

record 'c filesystem =
  dirs :: "path set"
  files :: "path \<rightharpoonup> 'c"

definition empty_fs :: "'c filesystem" where
  "empty_fs = \<lparr>dirs = {}, files = Map.empty\<rparr>"

fun splitpath :: "string \<Rightarrow> string list" where
  "splitpath [] = [[]]"
| "splitpath (c # cs) =
     (if c = CHR ''/'' then [] # splitpath cs
      else (case splitpath cs of [] \<Rightarrow> [[c]] | w # ws \<Rightarrow> (c # w) # ws))"

definition Path :: "string \<Rightarrow> path" where
  \<comment> \<open>\<open>Path(filename)\<close>: the components between slashes; empty ones and \<open>.\<close> are dropped\<close>
  "Path s = filter (\<lambda>w. w \<noteq> [] \<and> w \<noteq> ''.'') (splitpath s)"

definition plain_relative :: "string \<Rightarrow> bool" where
  \<comment> \<open>a relative file name whose components are names: none empty, \<open>.\<close> or \<open>..\<close>\<close>
  "plain_relative name =
     (name \<noteq> [] \<and> list_all (\<lambda>w. w \<noteq> [] \<and> w \<noteq> ''.'' \<and> w \<noteq> ''..'') (splitpath name))"

definition parent :: "path \<Rightarrow> path" where
  "parent p = butlast p"

definition ancestors :: "path \<Rightarrow> path list" where
  \<comment> \<open>the directories above \<open>p\<close>, below the working directory\<close>
  "ancestors p = butlast (tl (prefixes p))"

definition is_dir :: "'c filesystem \<Rightarrow> path \<Rightarrow> bool" where
  "is_dir fs p = (p = [] \<or> p \<in> dirs fs)"

definition mkdir :: "path \<Rightarrow> 'c filesystem \<Rightarrow> error + 'c filesystem" where
  \<comment> \<open>\<open>p.mkdir(parents=True, exist_ok=True)\<close>\<close>
  "mkdir p fs =
     (if list_ex (\<lambda>q. q \<in> dom (files fs)) (ancestors p) then Inl NotADirectoryError
      else if p \<in> dom (files fs) then Inl FileExistsError
      else Inr (fs\<lparr>dirs := dirs fs \<union> set (tl (prefixes p))\<rparr>))"

definition open_write :: "path \<Rightarrow> 'c \<Rightarrow> 'c filesystem \<Rightarrow> error + 'c filesystem" where
  \<comment> \<open>\<open>with open(p, mode="w", encoding="utf-8") as f: json.dump(content, f, indent=4)\<close>\<close>
  "open_write p content fs =
     (if list_ex (\<lambda>q. q \<in> dom (files fs)) (ancestors p) then Inl NotADirectoryError
      else if \<not> is_dir fs (parent p) then Inl FileNotFoundError
      else if is_dir fs p then Inl IsADirectoryError
      else Inr (fs\<lparr>files := (files fs)(p \<mapsto> content)\<rparr>))"

definition read_file :: "string \<Rightarrow> 'c filesystem \<Rightarrow> error + 'c" where
  "read_file path fs =
     (case files fs (Path path) of None \<Rightarrow> Inl FileNotFoundError | Some c \<Rightarrow> Inr c)"

text \<open>
  The sampling notebook (Task 13) names each result file by a fresh UUID. The string
  \<open>str(uuid.uuid4())\<close> is an input of the model.
\<close>

definition output_result :: "string \<Rightarrow> json \<Rightarrow> json filesystem \<Rightarrow> error + json filesystem" where
  "output_result uuid4 result fs =
     (let filename = ''outputs/'' @ uuid4 @ ''.json'' in
      case mkdir (parent (Path filename)) fs of
        Inl e \<Rightarrow> Inl e
      | Inr fs1 \<Rightarrow> open_write (Path filename) result fs1)"

text \<open>
  The optimisation notebook (Task 16) defines \<open>output_result(filepath, result)\<close> with the
  same body, the file name given by the caller.
\<close>

definition output_result_filepath ::
  "string \<Rightarrow> json \<Rightarrow> json filesystem \<Rightarrow> error + json filesystem" where
  "output_result_filepath filepath result fs =
     (let filename = filepath in
      case mkdir (parent (Path filename)) fs of
        Inl e \<Rightarrow> Inl e
      | Inr fs1 \<Rightarrow> open_write (Path filename) result fs1)"


section \<open>Task 16: the optimisation notebook (parameter_study_optimisation.ipynb)\<close>

text \<open>
  The objective \<open>objective\<close> is imported from \<open>openmc_model\<close>: it runs a simulation and
  returns the negated TBR for the optimiser to minimise. It is a parameter here, as is the
  data the adaptive learner has collected and the result object of \<open>gp_minimize\<close>.
\<close>

definition linspace :: "real \<Rightarrow> real \<Rightarrow> nat \<Rightarrow> real list" where
  \<comment> \<open>\<open>np.linspace(start, stop, num)\<close>: \<open>num\<close> evenly spaced samples, both ends included\<close>
  "linspace start stop num =
     (if num = 1 then [start]
      else map (\<lambda>i. start + real i * ((stop - start) / real (num - 1))) [0..<num])"

definition tbr_values :: "(real list \<Rightarrow> real) \<Rightarrow> json list" where
  \<comment> \<open>the list the loop of cell \<open>get_true_values_1D\<close> appends to\<close>
  "tbr_values objective =
     map (\<lambda>breeder_percent_in_breeder_plus_multiplier.
            JObj [(''breeder_percent_in_breeder_plus_multiplier'',
                     JNum breeder_percent_in_breeder_plus_multiplier),
                  (''tbr'', JNum (- objective [breeder_percent_in_breeder_plus_multiplier]))])
         (linspace 0 100 101)"

definition get_true_values_1D ::
  "(real list \<Rightarrow> real) \<Rightarrow> json filesystem \<Rightarrow> error + json filesystem" where
  "get_true_values_1D objective fs =
     output_result_filepath ''outputs/1d_tbr_values.json'' (JArr (tbr_values objective)) fs"

definition get_optimised_values_1d ::
  "(string \<times> real) list \<Rightarrow> json filesystem \<Rightarrow> error + json filesystem" where
  \<comment> \<open>\<open>learner_data\<close> is \<open>dict(learner.data)\<close> once the runner has finished\<close>
  "get_optimised_values_1d learner_data fs =
     output_result_filepath ''outputs/1d_optimised_values.json''
       (JObj (map (\<lambda>(x, y). (x, JNum y)) learner_data)) fs"

text \<open>
  The plotting cell loads the sweep with \<open>pd.read_json\<close> and reads two columns of the
  frame, then loads the optimiser's samples with \<open>json.load\<close>. \<open>pd.read_json\<close> decodes
  the numbers of the file with a decoder of its own: \<open>number v\<close> is the float the frame
  holds for the float \<open>v\<close> that \<open>json.dump\<close> wrote. It is a parameter here; the default
  decoder is modelled in the next section. \<open>json.load\<close> returns the floats that were
  written: \<open>repr\<close> and \<open>float\<close> round-trip. An empty frame has no column (\<open>KeyError\<close>);
  a file of another shape than the one the cells above write is an error here.
\<close>

primrec decoded :: "(real \<Rightarrow> real) \<Rightarrow> json \<Rightarrow> json" where
  "decoded number (JNum v) = JNum (number v)"
| "decoded number (JStr s) = JStr s"
| "decoded number (JArr vs) = JArr (map (decoded number) vs)"
| "decoded number (JObj kvs) = JObj (map (map_prod id (decoded number)) kvs)"

definition read_json ::
  "(real \<Rightarrow> real) \<Rightarrow> string \<Rightarrow> json filesystem \<Rightarrow> error + json list" where
  "read_json number path fs =
     (case read_file path fs of
        Inl e \<Rightarrow> Inl e
      | Inr (JArr rows) \<Rightarrow> Inr (map (decoded number) rows)
      | Inr _ \<Rightarrow> Inl ValueError)"

fun field :: "string \<Rightarrow> json \<Rightarrow> error + real" where
  "field k (JObj kvs) = (case map_of kvs k of Some (JNum v) \<Rightarrow> Inr v | _ \<Rightarrow> Inl KeyError)"
| "field k _ = Inl KeyError"

fun column_values :: "string \<Rightarrow> json list \<Rightarrow> error + real list" where
  "column_values k [] = Inr []"
| "column_values k (r # rs) =
     (case field k r of
        Inl e \<Rightarrow> Inl e
      | Inr v \<Rightarrow> (case column_values k rs of Inl e \<Rightarrow> Inl e | Inr vs \<Rightarrow> Inr (v # vs)))"

definition column :: "string \<Rightarrow> json list \<Rightarrow> error + real list" where
  \<comment> \<open>\<open>data[k]\<close>\<close>
  "column k rows = (if rows = [] then Inl KeyError else column_values k rows)"

fun number_items :: "(string \<times> json) list \<Rightarrow> error + (string \<times> real) list" where
  "number_items [] = Inr []"
| "number_items ((k, JNum v) # kvs) =
     (case number_items kvs of Inl e \<Rightarrow> Inl e | Inr xs \<Rightarrow> Inr ((k, v) # xs))"
| "number_items (_ # kvs) = Inl TypeError"

definition load_items :: "string \<Rightarrow> json filesystem \<Rightarrow> error + (string \<times> real) list" where
  \<comment> \<open>\<open>json.load(f).items()\<close>, each value a number\<close>
  "load_items path fs =
     (case read_file path fs of
        Inl e \<Rightarrow> Inl e
      | Inr (JObj kvs) \<Rightarrow> number_items kvs
      | Inr _ \<Rightarrow> Inl TypeError)"

record figure_1d =
  printed :: "real \<times> string"
  samples_from_optimisation :: "string list \<times> real list"
  true_value :: "real list \<times> real list"

definition plot_1d_optimisation ::
  "(real \<Rightarrow> real) \<Rightarrow> json filesystem \<Rightarrow> error + figure_1d" where
  "plot_1d_optimisation number fs =
     (case read_json number ''outputs/1d_tbr_values.json'' fs of
        Inl e \<Rightarrow> Inl e | Inr data \<Rightarrow>
      case column ''breeder_percent_in_breeder_plus_multiplier'' data of
        Inl e \<Rightarrow> Inl e | Inr x_data \<Rightarrow>
      case column ''tbr'' data of Inl e \<Rightarrow> Inl e | Inr tbr \<Rightarrow>
      let fx = map uminus tbr in
      case load_items ''outputs/1d_optimised_values.json'' fs of Inl e \<Rightarrow> Inl e | Inr data \<Rightarrow>
      let x_vals = map fst data; tbr_vals = map (\<lambda>i. - snd i) data in
      if tbr_vals = [] then Inl IndexError
      else Inr \<lparr>printed = (last tbr_vals, last x_vals),
                samples_from_optimisation = (x_vals, tbr_vals),
                true_value = (x_data, map (\<lambda>i. - i) fx)\<rparr>)"

text \<open>The three cells of the 1D study, one after the other.\<close>

definition study_1d ::
  "(real list \<Rightarrow> real) \<Rightarrow> (string \<times> real) list \<Rightarrow> (real \<Rightarrow> real) \<Rightarrow> json filesystem
     \<Rightarrow> error + figure_1d" where
  "study_1d objective learner_data number fs =
     (case get_true_values_1D objective fs of
        Inl e \<Rightarrow> Inl e
      | Inr fs1 \<Rightarrow>
     (case get_optimised_values_1d learner_data fs1 of
        Inl e \<Rightarrow> Inl e
      | Inr fs2 \<Rightarrow> plot_1d_optimisation number fs2))"

text \<open>
  The 2D cells print and plot the optimum of \<open>res = gp_minimize(objective, ...)\<close> and the
  values found on the way, \<open>z=-res.func_vals\<close>.
\<close>

record OptimizeResult =
  res_x :: "real list"
  res_fun :: real
  func_vals :: "real list"
  x_iters :: "real list list"

definition print_maximum_tbr :: "OptimizeResult \<Rightarrow> real" where
  \<comment> \<open>\<open>print('Maximum TBR = ', -res.fun)\<close>\<close>
  "print_maximum_tbr res = - res_fun res"

definition tbr_values_found :: "OptimizeResult \<Rightarrow> real list" where
  "tbr_values_found res = map uminus (func_vals res)"


section \<open>The number decoder of \<open>pd.read_json\<close>\<close>

text \<open>
  The sweep's file is written by \<open>json.dump\<close> and read by \<open>pd.read_json\<close>, and the two
  do not agree on every number. A Python float is an IEEE double; here it is the rational
  number it stands for, and \<open>double x\<close> is the double nearest to \<open>x\<close>, a tie going to the
  even significand (53 bits, subnormal numbers included, overflow not modelled).
\<close>

definition round_half_even :: "real \<Rightarrow> int" where
  "round_half_even x =
     (let n = \<lfloor>x\<rfloor>; r = x - of_int n
      in if r < 1 / 2 then n else if 1 / 2 < r then n + 1
         else if even n then n else n + 1)"

function digit_count :: "int \<Rightarrow> int \<Rightarrow> int" where
  \<comment> \<open>the number of digits of \<open>n\<close> in base \<open>b\<close>\<close>
  "digit_count b n = (if n \<le> 0 \<or> b \<le> 1 then 0 else 1 + digit_count b (n div b))"
  by pat_completeness auto
termination
  by (relation "measure (\<lambda>(b, n). nat n)") (auto intro: int_div_less_self)

declare digit_count.simps [simp del]

definition binary_exponent :: "real \<Rightarrow> int" where
  \<comment> \<open>the \<open>e\<close> with \<open>2^e \<le> x < 2^(e+1)\<close>, for positive \<open>x\<close>\<close>
  "binary_exponent x =
     (if 1 \<le> x then digit_count 2 \<lfloor>x\<rfloor> - 1 else - digit_count 2 (\<lceil>1 / x\<rceil> - 1))"

definition double :: "real \<Rightarrow> real" where
  "double x =
     (if x = 0 then 0
      else let ulp = 2 powi (max (binary_exponent \<bar>x\<bar>) (- 1022) - 52)
           in of_int (round_half_even (x / ulp)) * ulp)"

text \<open>
  \<open>json.dump\<close> writes a float as \<open>float.__repr__\<close> gives it: the shortest decimal numeral
  that reads back as the float, the nearest one to the float if there are several, with at
  most 17 significant digits; in the form \<open>digits.digits\<close> when the decimal point falls
  within \<open>0.0001\<close> and \<open>1e16\<close>, with an exponent otherwise. The text of a number is its
  sign, the digits before and after the point and the exponent.
\<close>

definition decimal_point :: "real \<Rightarrow> int" where
  \<comment> \<open>the \<open>k\<close> with \<open>10^(k-1) \<le> x < 10^k\<close>, for positive \<open>x\<close>\<close>
  "decimal_point x =
     (if 1 \<le> x then digit_count 10 \<lfloor>x\<rfloor> else 1 - digit_count 10 (\<lceil>1 / x\<rceil> - 1))"

definition candidate :: "real \<Rightarrow> int \<Rightarrow> int option" where
  \<comment> \<open>the numeral of \<open>n\<close> significant digits that reads back as \<open>x\<close>, if there is one\<close>
  "candidate x n =
     (let k = decimal_point x;
          s = x * 10 powi (n - k);
          lo = \<lfloor>s\<rfloor>;
          hi = lo + 1;
          ok = (\<lambda>m. double (of_int m * 10 powi (k - n)) = x)
      in if ok lo \<and> ok hi
         then Some (if s - of_int lo < of_int hi - s then lo
                    else if of_int hi - s < s - of_int lo then hi
                    else if even lo then lo else hi)
         else if ok lo then Some lo
         else if ok hi then Some hi
         else None)"

definition shortest_decimal :: "real \<Rightarrow> int \<times> int" where
  \<comment> \<open>\<open>(m, e)\<close>: the numeral is \<open>m * 10^e\<close>\<close>
  "shortest_decimal x =
     (case List.map_filter (\<lambda>n. map_option (\<lambda>m. (m, decimal_point x - n)) (candidate x n))
             [1..17] of
        r # _ \<Rightarrow> r
      | [] \<Rightarrow> (round_half_even (x * 10 powi (17 - decimal_point x)), decimal_point x - 17))"

record number_text =
  negative :: bool
  integer_digits :: "int list"
  fraction_digits :: "int list"
  exponent :: "int option"

function digits_of :: "int \<Rightarrow> int list" where
  "digits_of n = (if n < 10 then [n] else digits_of (n div 10) @ [n mod 10])"
  by pat_completeness auto
termination
  by (relation "measure nat") (auto intro: int_div_less_self)

declare digits_of.simps [simp del]

definition float_repr :: "real \<Rightarrow> number_text" where
  "float_repr x =
     (if x = 0
      then \<lparr>negative = False, integer_digits = [0], fraction_digits = [0], exponent = None\<rparr>
      else case shortest_decimal \<bar>x\<bar> of (m, e) \<Rightarrow>
        let all_digits = digits_of m;
            digits = rev (dropWhile (\<lambda>d. d = 0) (rev all_digits));
            decpt = e + int (length all_digits)
        in if decpt \<le> - 4 \<or> 16 < decpt
           then \<lparr>negative = x < 0, integer_digits = take 1 digits,
                  fraction_digits = drop 1 digits, exponent = Some (decpt - 1)\<rparr>
           else if decpt \<le> 0
           then \<lparr>negative = x < 0, integer_digits = [0],
                  fraction_digits = replicate (nat (- decpt)) 0 @ digits, exponent = None\<rparr>
           else if int (length digits) \<le> decpt
           then \<lparr>negative = x < 0,
                  integer_digits = digits @ replicate (nat decpt - length digits) 0,
                  fraction_digits = [0], exponent = None\<rparr>
           else \<lparr>negative = x < 0, integer_digits = take (nat decpt) digits,
                  fraction_digits = drop (nat decpt) digits, exponent = None\<rparr>)"

text \<open>
  \<open>pd.read_json\<close> is called with its default \<open>precise_float=False\<close>: its decoder reads the
  integer part, accumulates at most 15 digits of the fraction in a double, scales them by
  a table of the powers of ten, \<open>g_pow10\<close>, and adds the two; an exponent is applied with
  \<open>pow(10.0, e)\<close>, taken as the nearest double here. Each operation rounds on its own. The
  integer part of a float's text has at most 17 digits and fits the decoder's 64-bit
  integer.
\<close>

definition g_pow10 :: "nat \<Rightarrow> real" where
  "g_pow10 n = double (1 / 10 ^ n)"

definition createDouble :: "real \<Rightarrow> real \<Rightarrow> real \<Rightarrow> nat \<Rightarrow> real" where
  "createDouble intNeg intValue frcValue frcDecimalCount =
     double (intValue + double (frcValue * g_pow10 frcDecimalCount)) * intNeg"

definition decode_numeric :: "number_text \<Rightarrow> real" where
  "decode_numeric t =
     (let intNeg = (if negative t then - 1 else 1);
          intValue = double (of_int (foldl (\<lambda>v d. v * 10 + d) 0 (integer_digits t)));
          decimals = take 15 (fraction_digits t);
          frcValue = foldl (\<lambda>v d. double (double (v * 10) + of_int d)) 0 decimals;
          number = createDouble intNeg intValue frcValue (length decimals)
      in case exponent t of
           None \<Rightarrow> number
         | Some e \<Rightarrow> double (number * double (10 powi e)))"

definition pd_read_number :: "real \<Rightarrow> real" where
  \<comment> \<open>the float that \<open>pd.read_json\<close> returns for a float that \<open>json.dump\<close> wrote\<close>
  "pd_read_number x = decode_numeric (float_repr x)"


section \<open>Task 13: the sampling notebook\<close>

text \<open>
  The random-sampling cell draws the two model parameters with \<open>np.random.uniform\<close>, runs
  the model with them and saves the result. The generator's draws from \<open>[0, 1)\<close>, the
  UUIDs and the model \<open>find_tbr_hcpb\<close> (imported from \<open>openmc_model\<close>) are parameters;
  \<open>np.random.uniform(low, high)\<close> scales a draw to \<open>[low, high)\<close>.
\<close>

definition number_of_simulations :: nat where
  "number_of_simulations = 16"

definition uniform :: "real \<Rightarrow> real \<Rightarrow> real \<Rightarrow> real" where
  "uniform low high random_sample = low + (high - low) * random_sample"

definition random_parameters :: "(nat \<Rightarrow> real) \<Rightarrow> nat \<Rightarrow> real \<times> real" where
  \<comment> \<open>the arguments of \<open>find_tbr_hcpb\<close> in iteration \<open>i\<close>\<close>
  "random_parameters random_sample i =
     (let breeder_percent_in_breeder_plus_multiplier_ratio =
            uniform 0 100 (random_sample (2 * i));
          blanket_breeder_li6_enrichment = uniform 1 100 (random_sample (2 * i + 1))
      in (breeder_percent_in_breeder_plus_multiplier_ratio, blanket_breeder_li6_enrichment))"

fun random_sampling ::
  "(real \<Rightarrow> real \<Rightarrow> (string \<times> json) list) \<Rightarrow> (nat \<Rightarrow> real) \<Rightarrow> (nat \<Rightarrow> string)
     \<Rightarrow> nat list \<Rightarrow> json filesystem \<Rightarrow> error + json filesystem" where
  "random_sampling find_tbr_hcpb random_sample uuid4 [] fs = Inr fs"
| "random_sampling find_tbr_hcpb random_sample uuid4 (i # is) fs =
     (case random_parameters random_sample i of
        (breeder_percent_in_breeder_plus_multiplier_ratio, blanket_breeder_li6_enrichment) \<Rightarrow>
          let result = find_tbr_hcpb breeder_percent_in_breeder_plus_multiplier_ratio
                         blanket_breeder_li6_enrichment;
              result = AList.update ''sample'' (JStr ''random'') result
          in case output_result (uuid4 i) (JObj result) fs of
               Inl e \<Rightarrow> Inl e
             | Inr fs' \<Rightarrow> random_sampling find_tbr_hcpb random_sample uuid4 is fs')"

definition random_sampling_cell ::
  "(real \<Rightarrow> real \<Rightarrow> (string \<times> json) list) \<Rightarrow> (nat \<Rightarrow> real) \<Rightarrow> (nat \<Rightarrow> string)
     \<Rightarrow> json filesystem \<Rightarrow> error + json filesystem" where
  "random_sampling_cell find_tbr_hcpb random_sample uuid4 fs =
     random_sampling find_tbr_hcpb random_sample uuid4 [0..<number_of_simulations] fs"


definition result_file :: "(nat \<Rightarrow> string) \<Rightarrow> nat \<Rightarrow> path" where
  \<comment> \<open>the file that iteration \<open>i\<close> writes\<close>
  "result_file uuid4 i = [''outputs'', uuid4 i @ ''.json'']"


section \<open>Configuration values the notebooks compute\<close>

text \<open>
  The neutron-spectra notebook gives its energy filter generated bin edges:
  \<open>openmc.EnergyFilter(np.linspace(0, 15e6, 200))\<close>.
\<close>

definition energy_filter_values :: "real list" where
  "energy_filter_values = linspace 0 (15 * 10 ^ 6) 200"

text \<open>
  The plasma-source notebook passes \<open>pedestal_radius=0.8 * 2.92258\<close> to \<open>TokamakSource\<close>.
\<close>

definition pedestal_radius :: real where
  "pedestal_radius = 0.8 * 2.92258"

text \<open>
  The depletion notebook (Task 14) sets the volume of its material from the sphere's
  radius, \<open>my_material.volume = (4/3) * math.pi * iron_sphere_radius**3\<close>, names the chain
  file and builds the irradiation schedule with list arithmetic.
\<close>

definition iron_sphere_radius :: real where
  "iron_sphere_radius = 250"

definition my_material_volume :: real where
  "my_material_volume = (4 / 3) * pi * iron_sphere_radius ^ 3"

definition chain_filename :: string where
  "chain_filename = ''/tasks/task_14_activation_transmutation_depletion/chain-nndc-b7.1.xml''"

definition time_steps :: "int list" where
  "time_steps = concat (replicate 5 [365 * 24 * 60 * 60])
                  @ concat (replicate 5 [365 * 24 * 60 * 60])"

definition source_rates :: "real list" where
  "source_rates = concat (replicate 5 [1 * 10 ^ 9]) @ concat (replicate 5 [0])"



section \<open>The notebooks' calls into OpenMC and paramak\<close>

text \<open>
  The notebooks that build a model and run it are straight-line scripts: no loop, no
  branch, no function of their own. What such a notebook does with the external libraries
  is the sequence of its statements: calls (with the variable that receives the result, the
  callee as written and the arguments), assignments, displayed values and shell commands,
  in the order of evaluation (a call's arguments before the call). Each notebook is listed
  statement by statement. An argument is a variable, a literal or a list or tuple of such;
  any other expression is \<open>Other\<close>. Imports are left out; a subscript in a callee is
  written without its quotes.
\<close>

datatype expr =
    Var string | Str string | Num real | Const string | Seq "expr list" | Other

datatype stmt =
    Call "string option" string "(string \<times> expr) list"
  | Assign string expr
  | Display expr
  | Shell string

text \<open>The notebook Part 1 - Performing Tritium Breeding Ratio (TBR) simulations.\<close>

definition tbr_notebook :: "stmt list" where
  "tbr_notebook =
    [Call None ''HTML'' [('''', Other)],
     Call (Some ''breeder_material'') ''openmc.Material'' [('''', Num (1)),
       ('''', Str ''PbLi'')],
     Call None ''breeder_material.add_element'' [('''', Str ''Pb''), ('''', Num (84.2)),
       (''percent_type'', Str ''ao'')],
     Call None ''breeder_material.add_element'' [('''', Str ''Li''), ('''', Num (15.8)),
       (''percent_type'', Str ''ao''), (''enrichment'', Num (50.0)),
       (''enrichment_target'', Str ''Li6''), (''enrichment_type'', Str ''ao'')],
     Call None ''breeder_material.set_density'' [('''', Str ''atom/b-cm''),
       ('''', Num (3.2720171 / 10 ^ 2))],
     Call (Some ''steel'') ''openmc.Material'' [(''name'', Str ''steel'')],
     Call None ''steel.set_density'' [('''', Str ''g/cm3''), ('''', Num (7.75))],
     Call None ''steel.add_element'' [('''', Str ''Fe''), ('''', Num (0.95)),
       (''percent_type'', Str ''wo'')],
     Call None ''steel.add_element'' [('''', Str ''C''), ('''', Num (0.05)),
       (''percent_type'', Str ''wo'')],
     Call (Some ''mats'') ''openmc.Materials'' [('''', Seq [Var ''breeder_material'',
         Var ''steel''])],
     Call (Some ''vessel_inner'') ''openmc.Sphere'' [(''r'', Num (500))],
     Call (Some ''first_wall_outer_surface'') ''openmc.Sphere'' [(''r'', Num (510))],
     Call (Some ''breeder_blanket_outer_surface'') ''openmc.Sphere'' [(''r'', Num (610)),
       (''boundary_type'', Str ''vacuum'')],
     Assign ''inner_vessel_region'' (Other),
     Call (Some ''inner_vessel_cell'') ''openmc.Cell'' [(''region'',
         Var ''inner_vessel_region'')],
     Assign ''first_wall_region'' (Other),
     Call (Some ''first_wall_cell'') ''openmc.Cell'' [(''region'', Var ''first_wall_region'')],
     Assign ''first_wall_cell.fill'' (Var ''steel''),
     Assign ''breeder_blanket_region'' (Other),
     Call (Some ''breeder_blanket_cell'') ''openmc.Cell'' [(''region'',
         Var ''breeder_blanket_region'')],
     Assign ''breeder_blanket_cell.fill'' (Var ''breeder_material''),
     Call (Some ''universe'') ''openmc.Universe'' [(''cells'', Seq [Var ''inner_vessel_cell'',
         Var ''first_wall_cell'', Var ''breeder_blanket_cell''])],
     Call (Some ''geom'') ''openmc.Geometry'' [('''', Var ''universe'')],
     Call (Some ''sett'') ''openmc.Settings'' [],
     Assign ''sett.batches'' (Num (10)),
     Assign ''sett.inactive'' (Num (0)),
     Assign ''sett.particles'' (Num (500)),
     Assign ''sett.run_mode'' (Str ''fixed source''),
     Call (Some ''source'') ''openmc.Source'' [],
     Call (Some ''source.space'') ''openmc.stats.Point'' [('''', Seq [Num (0), Num (0),
         Num (0)])],
     Call (Some ''source.angle'') ''openmc.stats.Isotropic'' [],
     Call (Some ''source.energy'') ''openmc.stats.Discrete'' [('''', Seq [Num (14 * 10 ^ 6)]),
       ('''', Seq [Num (1)])],
     Assign ''sett.source'' (Var ''source''),
     Call (Some ''tallies'') ''openmc.Tallies'' [],
     Call (Some ''cell_filter'') ''openmc.CellFilter'' [('''', Var ''breeder_blanket_cell'')],
     Call (Some ''tbr_tally'') ''openmc.Tally'' [(''name'', Str ''TBR'')],
     Assign ''tbr_tally.filters'' (Seq [Var ''cell_filter'']),
     Assign ''tbr_tally.scores'' (Seq [Str ''(n,Xt)'']),
     Call None ''tallies.append'' [('''', Var ''tbr_tally'')],
     Call (Some ''model'') ''openmc.model.Model'' [('''', Var ''geom''), ('''', Var ''mats''),
       ('''', Var ''sett''), ('''', Var ''tallies'')],
     Call (Some ''sp_filename'') ''model.run'' [],
     Call (Some ''sp'') ''openmc.StatePoint'' [('''', Var ''sp_filename'')],
     Call (Some ''tbr_tally'') ''sp.get_tally'' [(''name'', Str ''TBR'')],
     Call (Some ''df'') ''tbr_tally.get_pandas_dataframe'' [],
     Call (Some ''tbr_tally_result'') ''df[mean].sum'' [],
     Call (Some ''tbr_tally_std_dev'') ''df[std. dev.].sum'' [],
     Call None ''print'' [('''', Str ''The tritium breeding ratio was found, TBR = ''),
       ('''', Var ''tbr_tally_result'')],
     Call None ''print'' [('''', Str ''Standard deviation on the tbr tally is ''),
       ('''', Var ''tbr_tally_std_dev'')]]"

text \<open>Task 6, 1_find_dpa.ipynb: Simulating Displacements Per Atom (DPA).\<close>

definition find_dpa_notebook :: "stmt list" where
  "find_dpa_notebook =
    [Call None ''HTML'' [('''', Other)],
     Assign ''density_of_iron_in_g_per_cm3'' (Num (7.75)),
     Call (Some ''my_material'') ''openmc.Material'' [(''name'', Str ''Iron'')],
     Call None ''my_material.set_density'' [('''', Str ''g/cm3''),
       ('''', Var ''density_of_iron_in_g_per_cm3'')],
     Call None ''my_material.add_element'' [('''', Str ''Fe''), ('''', Num (1.0)),
       (''percent_type'', Str ''wo'')],
     Call (Some ''mats'') ''openmc.Materials'' [('''', Seq [Var ''my_material''])],
     Call (Some ''outer_surface'') ''openmc.Sphere'' [(''r'', Num (610)),
       (''boundary_type'', Str ''vacuum'')],
     Assign ''vessel_region'' (Other),
     Call (Some ''vessel_cell'') ''openmc.Cell'' [(''region'', Var ''vessel_region'')],
     Assign ''vessel_cell.fill'' (Var ''my_material''),
     Call (Some ''universe'') ''openmc.Universe'' [(''cells'', Seq [Var ''vessel_cell''])],
     Call (Some ''geom'') ''openmc.Geometry'' [('''', Var ''universe'')],
     Call (Some ''sett'') ''openmc.Settings'' [],
     Assign ''batches'' (Num (10)),
     Assign ''sett.batches'' (Var ''batches''),
     Assign ''sett.inactive'' (Num (0)),
     Assign ''sett.particles'' (Num (10000)),
     Assign ''sett.run_mode'' (Str ''fixed source''),
     Call (Some ''source'') ''openmc.Source'' [],
     Call (Some ''source.space'') ''openmc.stats.Point'' [('''', Seq [Num (0), Num (0),
         Num (0)])],
     Call (Some ''source.angle'') ''openmc.stats.Isotropic'' [],
     Call (Some ''source.energy'') ''openmc.stats.Discrete'' [('''', Seq [Num (14 * 10 ^ 6)]),
       ('''', Seq [Num (1)])],
     Assign ''sett.source'' (Var ''source''),
     Call (Some ''tallies'') ''openmc.Tallies'' [],
     Call (Some ''cell_filter'') ''openmc.CellFilter'' [('''', Var ''vessel_cell'')],
     Call (Some ''reaction_tally'') ''openmc.Tally'' [(''name'', Str ''DPA'')],
     Assign ''reaction_tally.filters'' (Seq [Var ''cell_filter'']),
     Assign ''reaction_tally.scores'' (Seq [Str ''444'']),
     Assign ''reaction_tally.nuclides'' (Seq [Str ''Fe54'', Str ''Fe56'', Str ''Fe57'',
         Str ''Fe58'']),
     Call None ''tallies.append'' [('''', Var ''reaction_tally'')],
     Call (Some ''model'') ''openmc.model.Model'' [('''', Var ''geom''), ('''', Var ''mats''),
       ('''', Var ''sett''), ('''', Var ''tallies'')],
     Shell ''rm *.h5'',
     Call (Some ''sp_filename'') ''model.run'' [],
     Call (Some ''sp'') ''openmc.StatePoint'' [('''', Var ''sp_filename'')],
     Call (Some ''tally'') ''sp.get_tally'' [(''name'', Str ''DPA'')],
     Call (Some ''df'') ''tally.get_pandas_dataframe'' [],
     Display (Var ''df''),
     Call (Some ''damage_energy_in_ev'') ''df[mean].sum'' [],
     Call None ''print'' [('''', Str ''Damage energy deposited per source neutron = ''),
       ('''', Var ''damage_energy_in_ev''), ('''', Other)],
     Call None ''print'' [('''',
         Str ''Two times the threshold energy of 40eV is needed to displace an atom'')],
     Assign ''displacements_per_source_neutron'' (Other),
     Call None ''print'' [('''', Str ''Displacements per source neutron = ''),
       ('''', Var ''displacements_per_source_neutron''), ('''', Other)],
     Call None ''print'' [('''',
         Str ''Assuming about 80% remains after 20% recombine to original lattice locations'')],
     Assign ''displacements_per_source_neutron_with_recombination'' (Other),
     Call None ''print'' [('''',
         Str ''Displacements per source neutron after recombination = ''),
       ('''', Var ''displacements_per_source_neutron_with_recombination''), ('''', Other)],
     Assign ''fusion_power'' (Num (3 * 10 ^ 9)),
     Assign ''energy_per_fusion_reaction'' (Num (17.6 * 10 ^ 6)),
     Assign ''eV_to_Joules'' (Num (1.60218 / 10 ^ 19)),
     Assign ''number_of_neutrons_per_second'' (Other),
     Call None ''print'' [('''', Str ''Number of neutrons per second''),
       ('''', Var ''number_of_neutrons_per_second''), ('''', Other)],
     Assign ''number_of_neutrons_per_year'' (Other),
     Call None ''print'' [('''', Str ''Number of neutrons per full power year ''),
       ('''', Var ''number_of_neutrons_per_year'')],
     Assign ''displacements_for_all_atoms'' (Other),
     Call None ''print'' [('''', Str ''Displacements for all atoms in the volume ''),
       ('''', Var ''displacements_for_all_atoms''), ('''', Other)],
     Call None ''print'' [('''', Other)],
     Assign ''lower_left'' (Seq [Num (- 1000), Num (- 1000), Num (- 1000)]),
     Assign ''upper_right'' (Seq [Num (1000), Num (1000), Num (1000)]),
     Call (Some ''material_vol_calc'') ''openmc.VolumeCalculation'' [('''',
         Seq [Var ''my_material'']),
       ('''', Num (100000)), ('''', Var ''lower_left''), ('''', Var ''upper_right'')],
     Call (Some ''cell_vol_calc'') ''openmc.VolumeCalculation'' [('''',
         Seq [Var ''vessel_cell'']),
       ('''', Num (100000))],
     Call (Some ''settings'') ''openmc.Settings'' [],
     Assign ''settings.volume_calculations'' (Seq [Var ''cell_vol_calc'',
         Var ''material_vol_calc'']),
     Assign ''settings.run_mode'' (Str ''volume''),
     Call None ''settings.export_to_xml'' [],
     Shell ''rm *.h5'',
     Call None ''openmc.run'' [],
     Call (Some ''cell_vol_calc_results'') ''openmc.VolumeCalculation.from_hdf5'' [('''',
         Str ''volume_1.h5'')],
     Call None ''print'' [('''', Other), ('''', Other), ('''', Str ''cm3'')],
     Call (Some ''material_vol_calc_results'') ''openmc.VolumeCalculation.from_hdf5'' [('''',
         Str ''volume_2.h5'')],
     Call None ''print'' [('''', Str ''my_material volume''), ('''', Other),
       ('''', Str ''cm3'')],
     Assign ''volume_of_firstwall_cell'' (Var ''cell_vol_calc_results.volumes[1].nominal_value''),
     Assign ''iron_atomic_mass_in_g'' (Other),
     Assign ''number_of_iron_atoms'' (Other),
     Call None ''print'' [('''', Str ''Number of iron atoms in the firstwall ''),
       ('''', Var ''number_of_iron_atoms'')],
     Assign ''DPA'' (Other),
     Call None ''print'' [('''', Str ''DPA =''), ('''', Var ''DPA'')]]"

text \<open>Task 8, 1_example_2d_mesh_tallies.ipynb: Part 1 - 2D mesh tallies.\<close>

definition mesh_2d_notebook :: "stmt list" where
  "mesh_2d_notebook =
    [Call None ''HTML'' [('''', Other)],
     Call (Some ''mats'') ''openmc.Materials'' [],
     Call (Some ''breeder_material'') ''openmc.Material'' [(''name'', Str ''breeder'')],
     Call None ''breeder_material.add_element'' [('''', Str ''Li''), ('''', Num (1)),
       (''percent_type'', Str ''ao'')],
     Call None ''breeder_material.set_density'' [('''', Str ''g/cm3''), ('''', Num (2.0))],
     Call (Some ''multiplier_material'') ''openmc.Material'' [(''name'', Str ''multiplier'')],
     Call None ''multiplier_material.add_element'' [('''', Str ''Pb''), ('''', Num (1)),
       (''percent_type'', Str ''ao'')],
     Call None ''multiplier_material.set_density'' [('''', Str ''g/cm3''), ('''', Num (11.0))],
     Assign ''mats'' (Seq [Var ''breeder_material'', Var ''multiplier_material'']),
     Call (Some ''sph1'') ''openmc.Sphere'' [(''r'', Num (50))],
     Call (Some ''sph2'') ''openmc.Sphere'' [(''r'', Num (90)),
       (''boundary_type'', Str ''vacuum'')],
     Call (Some ''plane1'') ''openmc.XPlane'' [('''', Num (20))],
     Call (Some ''breeder_cell'') ''openmc.Cell'' [(''region'', Other)],
     Assign ''breeder_cell.fill'' (Var ''breeder_material''),
     Call (Some ''multiplier_cell'') ''openmc.Cell'' [(''region'', Other)],
     Assign ''multiplier_cell.fill'' (Var ''multiplier_material''),
     Call (Some ''inner_vacuum_cell'') ''openmc.Cell'' [(''region'', Other)],
     Call (Some ''universe'') ''openmc.Universe'' [(''cells'', Seq [Var ''inner_vacuum_cell'',
         Var ''breeder_cell'', Var ''multiplier_cell''])],
     Call (Some ''geom'') ''openmc.Geometry'' [('''', Var ''universe'')],
     Call (Some ''sett'') ''openmc.Settings'' [],
     Assign ''sett.batches'' (Num (100)),
     Assign ''sett.inactive'' (Num (0)),
     Assign ''sett.particles'' (Num (50)),
     Assign ''sett.particle'' (Str ''neutron''),
     Assign ''sett.run_mode'' (Str ''fixed source''),
     Call (Some ''source'') ''openmc.Source'' [],
     Call (Some ''source.space'') ''openmc.stats.Point'' [('''', Seq [Num (0), Num (0),
         Num (0)])],
     Call (Some ''source.angle'') ''openmc.stats.Isotropic'' [],
     Call (Some ''source.energy'') ''openmc.stats.Discrete'' [('''', Seq [Num (14 * 10 ^ 6)]),
       ('''', Seq [Num (1)])],
     Assign ''sett.source'' (Var ''source''),
     Call (Some ''mesh'') ''openmc.RegularMesh'' [],
     Assign ''mesh_height'' (Num (100)),
     Assign ''mesh_width'' (Var ''mesh_height''),
     Assign ''mesh.dimension'' (Seq [Var ''mesh_width'', Num (1), Var ''mesh_height'']),
     Assign ''mesh.lower_left'' (Seq [Num (- 200), Num (- 200), Num (- 200)]),
     Assign ''mesh.upper_right'' (Seq [Num (200), Num (200), Num (200)]),
     Call (Some ''tallies'') ''openmc.Tallies'' [],
     Call (Some ''mesh_filter'') ''openmc.MeshFilter'' [('''', Var ''mesh'')],
     Call (Some ''mesh_tally'') ''openmc.Tally'' [(''name'', Str ''tallies_on_mesh'')],
     Assign ''mesh_tally.filters'' (Seq [Var ''mesh_filter'']),
     Assign ''mesh_tally.scores'' (Seq [Str ''flux'', Str ''absorption'', Str ''(n,2n)'']),
     Call None ''tallies.append'' [('''', Var ''mesh_tally'')],
     Call (Some ''model'') ''openmc.model.Model'' [('''', Var ''geom''), ('''', Var ''mats''),
       ('''', Var ''sett''), ('''', Var ''tallies'')],
     Call None ''universe.plot'' [(''width'', Seq [Num (180), Num (180)]),
       (''basis'', Str ''xz'')],
     Call None ''plt.show'' [('''', Other)],
     Shell ''rm summary.h5'',
     Shell ''rm statepoint.*.h5'',
     Call (Some ''output_filename'') ''model.run'' [],
     Call (Some ''results'') ''openmc.StatePoint'' [('''', Var ''output_filename'')],
     Call (Some ''my_tally'') ''results.get_tally'' [(''scores'', Seq [Str ''flux''])],
     Call (Some ''my_slice'') ''my_tally.get_slice'' [(''scores'', Seq [Str ''flux''])],
     Assign ''my_slice.mean.shape'' (Seq [Var ''mesh_width'', Var ''mesh_height'']),
     Call (Some ''fig'') ''plt.subplot'' [],
     Call None ''fig.imshow'' [('''', Var ''my_slice.mean''),
       (''extent'', Seq [Num (- 200), Num (200), Num (- 200), Num (200)])],
     Call None ''plt.show'' [('''', Other)],
     Call (Some ''my_tally'') ''results.get_tally'' [(''scores'', Seq [Str ''absorption''])],
     Call (Some ''my_slice'') ''my_tally.get_slice'' [(''scores'', Seq [Str ''absorption''])],
     Assign ''my_slice.mean.shape'' (Seq [Var ''mesh_width'', Var ''mesh_height'']),
     Call (Some ''fig'') ''plt.subplot'' [],
     Call None ''fig.imshow'' [('''', Var ''my_slice.mean''),
       (''extent'', Seq [Num (- 200), Num (200), Num (- 200), Num (200)])],
     Call None ''plt.show'' [('''', Other)],
     Call (Some ''my_tally'') ''results.get_tally'' [(''scores'', Seq [Str ''(n,2n)''])],
     Call (Some ''my_slice'') ''my_tally.get_slice'' [(''scores'', Seq [Str ''(n,2n)''])],
     Assign ''my_slice.mean.shape'' (Seq [Var ''mesh_width'', Var ''mesh_height'']),
     Call (Some ''fig'') ''plt.subplot'' [],
     Call None ''fig.imshow'' [('''', Var ''my_slice.mean''),
       (''extent'', Seq [Num (- 200), Num (200), Num (- 200), Num (200)])],
     Call None ''plt.show'' [('''', Other)],
     Call (Some ''mesh'') ''openmc.RegularMesh'' [],
     Assign ''mesh_height'' (Num (100)),
     Assign ''mesh_width'' (Var ''mesh_height''),
     Assign ''mesh.dimension'' (Seq [Var ''mesh_width'', Num (1), Var ''mesh_height'']),
     Assign ''mesh.lower_left'' (Seq [Num (- 200), Num (- 0.5), Num (- 200)]),
     Assign ''mesh.upper_right'' (Seq [Num (200), Num (0.5), Num (200)])]"

text \<open>The notebook Part 2 - Plotting photon energy spectra in a histogram form.\<close>

definition photon_spectra_notebook :: "stmt list" where
  "photon_spectra_notebook =
    [Call (Some ''my_material'') ''openmc.Material'' [(''name'', Str ''tungsten'')],
     Call None ''my_material.add_element'' [('''', Str ''W''), ('''', Num (1)),
       (''percent_type'', Str ''ao'')],
     Call None ''my_material.set_density'' [('''', Str ''g/cm3''), ('''', Num (19))],
     Call (Some ''mats'') ''openmc.Materials'' [('''', Seq [Var ''my_material''])],
     Call (Some ''vessel_inner_surface'') ''openmc.Sphere'' [(''r'', Num (500))],
     Call (Some ''vessel_rear_surface'') ''openmc.Sphere'' [(''r'', Num (530))],
     Call (Some ''outer_surface'') ''openmc.Sphere'' [(''r'', Num (550)),
       (''boundary_type'', Str ''vacuum'')],
     Call (Some ''inner_vessel_cell'') ''openmc.Cell'' [(''region'', Other)],
     Call (Some ''blanket_cell'') ''openmc.Cell'' [(''region'', Other)],
     Assign ''blanket_cell.fill'' (Var ''my_material''),
     Call (Some ''outer_vessel_cell'') ''openmc.Cell'' [(''region'', Other)],
     Call (Some ''universe'') ''openmc.Universe'' [(''cells'', Seq [Var ''inner_vessel_cell'',
         Var ''blanket_cell'', Var ''outer_vessel_cell''])],
     Call (Some ''geom'') ''openmc.Geometry'' [('''', Var ''universe'')],
     Call (Some ''sett'') ''openmc.Settings'' [],
     Assign ''sett.batches'' (Num (10)),
     Assign ''sett.inactive'' (Num (0)),
     Assign ''sett.particles'' (Num (1000)),
     Assign ''sett.run_mode'' (Str ''fixed source''),
     Assign ''sett.photon_transport'' (Const ''True''),
     Call (Some ''source'') ''openmc.Source'' [],
     Call (Some ''source.space'') ''openmc.stats.Point'' [('''', Seq [Num (0), Num (0),
         Num (0)])],
     Call (Some ''source.angle'') ''openmc.stats.Isotropic'' [],
     Assign ''source.particle'' (Str ''neutron''),
     Call (Some ''source.energy'') ''openmc.stats.Discrete'' [('''', Seq [Num (14 * 10 ^ 6)]),
       ('''', Seq [Num (1)])],
     Assign ''sett.source'' (Var ''source''),
     Call (Some ''tallies'') ''openmc.Tallies'' [],
     Call (Some ''neutron_particle_filter'') ''openmc.ParticleFilter'' [('''',
         Seq [Str ''photon''])],
     Call (Some ''energy_filter'') ''openmc.EnergyFilter.from_group_structure'' [('''',
         Str ''VITAMIN-J-175'')],
     Call (Some ''cell_filter'') ''openmc.CellFilter'' [('''', Var ''blanket_cell'')],
     Call (Some ''cell_spectra_tally'') ''openmc.Tally'' [(''name'',
         Str ''cell_spectra_tally'')],
     Assign ''cell_spectra_tally.scores'' (Seq [Str ''flux'']),
     Assign ''cell_spectra_tally.filters'' (Seq [Var ''cell_filter'',
         Var ''neutron_particle_filter'', Var ''energy_filter'']),
     Call None ''tallies.append'' [('''', Var ''cell_spectra_tally'')],
     Call (Some ''model'') ''openmc.model.Model'' [('''', Var ''geom''), ('''', Var ''mats''),
       ('''', Var ''sett''), ('''', Var ''tallies'')],
     Shell ''rm *.h5'',
     Call (Some ''results_filename'') ''model.run'' [],
     Call (Some ''results'') ''openmc.StatePoint'' [('''', Var ''results_filename'')],
     Call (Some ''cell_tally'') ''results.get_tally'' [(''name'', Str ''cell_spectra_tally'')],
     Call None ''plot_spectrum_from_tally'' [(''spectrum'', Other),
       (''x_label'', Str ''energy [eV]''),
       (''y_label'', Str ''Photons per cm2 per source neutron''),
       (''plotting_package'', Str ''plotly'')]]"

text \<open>Task 8, 2_example_3d_mesh_tallies.ipynb: Part 2 - 3D mesh tallies.\<close>

definition mesh_3d_notebook :: "stmt list" where
  "mesh_3d_notebook =
    [Call (Some ''breeder_material'') ''openmc.Material'' [('''', Num (1)),
       ('''', Str ''PbLi'')],
     Call None ''breeder_material.add_element'' [('''', Str ''Pb''), ('''', Num (84.2)),
       (''percent_type'', Str ''ao'')],
     Call None ''breeder_material.add_element'' [('''', Str ''Li''), ('''', Num (15.8)),
       (''percent_type'', Str ''ao''), (''enrichment'', Num (7.0)),
       (''enrichment_target'', Str ''Li6''), (''enrichment_type'', Str ''ao'')],
     Call None ''breeder_material.set_density'' [('''', Str ''atom/b-cm''),
       ('''', Num (3.2720171 / 10 ^ 2))],
     Call (Some ''copper'') ''openmc.Material'' [(''name'', Str ''Copper'')],
     Call None ''copper.set_density'' [('''', Str ''g/cm3''), ('''', Num (8.5))],
     Call None ''copper.add_element'' [('''', Str ''Cu''), ('''', Num (1.0))],
     Call (Some ''eurofer'') ''openmc.Material'' [(''name'', Str ''iron'')],
     Call None ''eurofer.set_density'' [('''', Str ''g/cm3''), ('''', Num (7.75))],
     Call None ''eurofer.add_element'' [('''', Str ''Fe''), ('''', Num (89.067)),
       (''percent_type'', Str ''wo'')],
     Call (Some ''mats'') ''openmc.Materials'' [('''', Seq [Var ''breeder_material'',
         Var ''eurofer'', Var ''copper''])],
     Call (Some ''central_sol_surface'') ''openmc.ZCylinder'' [(''r'', Num (100))],
     Call (Some ''central_shield_outer_surface'') ''openmc.ZCylinder'' [(''r'', Num (110))],
     Call (Some ''vessel_inner_surface'') ''openmc.Sphere'' [(''r'', Num (500))],
     Call (Some ''first_wall_outer_surface'') ''openmc.Sphere'' [(''r'', Num (510))],
     Call (Some ''breeder_blanket_outer_surface'') ''openmc.Sphere'' [(''r'', Num (610)),
       (''boundary_type'', Str ''vacuum'')],
     Assign ''central_sol_region'' (Other),
     Call (Some ''central_sol_cell'') ''openmc.Cell'' [(''region'',
         Var ''central_sol_region'')],
     Assign ''central_sol_cell.fill'' (Var ''copper''),
     Assign ''central_shield_region'' (Other),
     Call (Some ''central_shield_cell'') ''openmc.Cell'' [(''region'',
         Var ''central_shield_region'')],
     Assign ''central_shield_cell.fill'' (Var ''eurofer''),
     Assign ''inner_vessel_region'' (Other),
     Call (Some ''inner_vessel_cell'') ''openmc.Cell'' [(''region'',
         Var ''inner_vessel_region'')],
     Assign ''first_wall_region'' (Other),
     Call (Some ''first_wall_cell'') ''openmc.Cell'' [(''region'', Var ''first_wall_region'')],
     Assign ''first_wall_cell.fill'' (Var ''eurofer''),
     Assign ''breeder_blanket_region'' (Other),
     Call (Some ''breeder_blanket_cell'') ''openmc.Cell'' [(''region'',
         Var ''breeder_blanket_region'')],
     Assign ''breeder_blanket_cell.fill'' (Var ''breeder_material''),
     Call (Some ''universe'') ''openmc.Universe'' [(''cells'', Seq [Var ''central_sol_cell'',
         Var ''central_shield_cell'', Var ''inner_vessel_cell'', Var ''first_wall_cell'',
         Var ''breeder_blanket_cell''])],
     Call (Some ''geom'') ''openmc.Geometry'' [('''', Var ''universe'')],
     Call (Some ''sett'') ''openmc.Settings'' [],
     Assign ''batches'' (Num (2)),
     Assign ''sett.batches'' (Var ''batches''),
     Assign ''sett.inactive'' (Num (0)),
     Assign ''sett.particles'' (Num (5000)),
     Assign ''sett.run_mode'' (Str ''fixed source''),
     Call (Some ''source'') ''openmc.Source'' [],
     Call (Some ''source.angle'') ''openmc.stats.Isotropic'' [],
     Call (Some ''source.energy'') ''openmc.stats.Discrete'' [('''', Seq [Num (14 * 10 ^ 6)]),
       ('''', Seq [Num (1)])],
     Call (Some ''source.space'') ''openmc.stats.Point'' [('''', Seq [Num (150), Num (150),
         Num (0)])],
     Assign ''sett.source'' (Var ''source''),
     Call (Some ''mesh'') ''openmc.RegularMesh'' [],
     Assign ''mesh.dimension'' (Seq [Num (100), Num (50), Num (100)]),
     Assign ''mesh.lower_left'' (Seq [Num (- 750), Num (0), Num (- 750)]),
     Assign ''mesh.upper_right'' (Seq [Num (750), Num (750), Num (750)]),
     Call (Some ''tallies'') ''openmc.Tallies'' [],
     Call (Some ''mesh_filter'') ''openmc.MeshFilter'' [('''', Var ''mesh'')],
     Call (Some ''mesh_tally'') ''openmc.Tally'' [(''tally_id'', Num (1)),
       (''name'', Str ''tbr_on_mesh'')],
     Assign ''mesh_tally.filters'' (Seq [Var ''mesh_filter'']),
     Assign ''mesh_tally.scores'' (Seq [Str ''(n,Xt)'']),
     Call None ''tallies.append'' [('''', Var ''mesh_tally'')],
     Call (Some ''mesh_tally'') ''openmc.Tally'' [(''tally_id'', Num (2)),
       (''name'', Str ''heating_on_mesh'')],
     Assign ''mesh_tally.filters'' (Seq [Var ''mesh_filter'']),
     Assign ''mesh_tally.scores'' (Seq [Str ''heating'']),
     Call None ''tallies.append'' [('''', Var ''mesh_tally'')],
     Shell ''rm s*.h5'',
     Call (Some ''model'') ''openmc.model.Model'' [('''', Var ''geom''), ('''', Var ''mats''),
       ('''', Var ''sett''), ('''', Var ''tallies'')],
     Call (Some ''sp_filename'') ''model.run'' [],
     Call (Some ''statepoint'') ''openmc.StatePoint'' [('''', Str ''statepoint.2.h5'')],
     Call (Some ''my_tbr_tally'') ''statepoint.get_tally'' [(''name'', Str ''tbr_on_mesh'')],
     Call None ''mesh.write_data_to_vtk'' [(''filename'', Str ''tbr_tally_on_mesh.vtk''),
       (''datasets'', Other)],
     Call (Some ''my_heating_tally'') ''statepoint.get_tally'' [(''name'',
         Str ''heating_on_mesh'')],
     Call None ''mesh.write_data_to_vtk'' [(''filename'', Str ''heating_tally_on_mesh.vtk''),
       (''datasets'', Other)]]"

text \<open>Task 11, 1_simulate_CAD_neutronics_geometry_with_cell_tally_heat.ipynb: Neutronics simulation with CAD geometry.\<close>

definition cad_heat_notebook :: "stmt list" where
  "cad_heat_notebook =
    [Call (Some ''plasma'') ''paramak.Plasma'' [(''minor_radius'', Num (150)),
       (''major_radius'', Num (450)), (''triangularity'', Num (0.55)),
       (''elongation'', Num (2)), (''rotation_angle'', Num (180)), (''name'', Str ''plasma'')],
     Call (Some ''blanket'') ''paramak.BlanketFP'' [(''plasma'', Var ''plasma''),
       (''thickness'', Num (50)), (''stop_angle'', Num (90)), (''start_angle'', Num (- 90)),
       (''offset_from_plasma'', Num (40)), (''rotation_angle'', Num (180)),
       (''name'', Str ''blanket'')],
     Call (Some ''my_reactor'') ''paramak.Reactor'' [('''', Seq [Var ''plasma'',
         Var ''blanket''])],
     Call None ''my_reactor.show'' [],
     Shell ''rm dagmc.h5m'',
     Call None ''my_reactor.export_dagmc_h5m'' [(''filename'', Str ''dagmc.h5m''),
       (''min_mesh_size'', Num (15)), (''max_mesh_size'', Num (30))],
     Call (Some ''geometry'') ''odw.Geometry'' [(''h5m_filename'', Str ''dagmc.h5m''),
       (''reflective_angles'', Seq [Num (0), Num (180)])],
     Call (Some ''materials'') ''odw.Materials'' [(''h5m_filename'', Str ''dagmc.h5m''),
       (''correspondence_dict'', Other)],
     Call (Some ''tally1'') ''odw.CellTally'' [(''tally_type'', Str ''heating''),
       (''target'', Str ''blanket''), (''materials'', Var ''materials'')],
     Call (Some ''tallies'') ''openmc.Tallies'' [('''', Seq [Var ''tally1''])],
     Call (Some ''settings'') ''odw.FusionSettings'' [],
     Assign ''settings.batches'' (Num (1)),
     Assign ''settings.particles'' (Num (100)),
     Call (Some ''settings.source'') ''ops.FusionRingSource'' [(''fuel'', Str ''DT''),
       (''radius'', Num (350)), (''angles'', Seq [Num (0), Num (3.14)])],
     Call (Some ''my_model'') ''openmc.Model'' [(''materials'', Var ''materials''),
       (''geometry'', Var ''geometry''), (''settings'', Var ''settings''),
       (''tallies'', Var ''tallies'')],
     Shell ''rm summary.h5'',
     Shell ''rm statepoint*.h5'',
     Call (Some ''statepoint_file'') ''my_model.run'' [],
     Call (Some ''sp'') ''openmc.StatePoint'' [('''', Var ''statepoint_file'')],
     Call (Some ''heating_tally'') ''sp.get_tally'' [(''name'', Str ''blanket_heating'')],
     Call None ''heating_tally.get_values'' [],
     Call None ''heating_tally.get_values().sum'' [],
     Call (Some ''tally'') ''otuc.process_tally'' [('''', Var ''heating_tally'')],
     Call None ''print'' [('''', Var ''tally'')],
     Call None ''otuc.process_tally'' [('''', Var ''heating_tally''),
       (''required_units'', Str ''MeV/source_particle'')],
     Call None ''otuc.process_tally'' [('''', Var ''heating_tally''),
       (''required_units'', Str ''gigawatts''), (''source_strength'', Num (1 * 10 ^ 21))]]"

text \<open>The notebook Part 1 - Plotting neutron energy spectra in a histogram form.\<close>

definition neutron_spectra_notebook :: "stmt list" where
  "neutron_spectra_notebook =
    [Call None ''HTML'' [('''', Other)],
     Call (Some ''my_material'') ''openmc.Material'' [(''name'', Str ''water'')],
     Call None ''my_material.add_element'' [('''', Str ''H''), ('''', Num (1)),
       (''percent_type'', Str ''ao'')],
     Call None ''my_material.add_element'' [('''', Str ''O''), ('''', Num (2)),
       (''percent_type'', Str ''ao'')],
     Call None ''my_material.set_density'' [('''', Str ''g/cm3''), ('''', Num (1))],
     Call (Some ''mats'') ''openmc.Materials'' [('''', Seq [Var ''my_material''])],
     Call (Some ''vessel_inner_surface'') ''openmc.Sphere'' [(''r'', Num (500))],
     Call (Some ''vessel_rear_surface'') ''openmc.Sphere'' [(''r'', Num (530))],
     Call (Some ''outer_surface'') ''openmc.Sphere'' [(''r'', Num (550)),
       (''boundary_type'', Str ''vacuum'')],
     Call (Some ''inner_vessel_cell'') ''openmc.Cell'' [(''region'', Other)],
     Call (Some ''blanket_cell'') ''openmc.Cell'' [(''region'', Other)],
     Assign ''blanket_cell.fill'' (Var ''my_material''),
     Call (Some ''outer_vessel_cell'') ''openmc.Cell'' [(''region'', Other)],
     Call (Some ''universe'') ''openmc.Universe'' [(''cells'', Seq [Var ''inner_vessel_cell'',
         Var ''blanket_cell'', Var ''outer_vessel_cell''])],
     Call (Some ''geom'') ''openmc.Geometry'' [('''', Var ''universe'')],
     Call (Some ''sett'') ''openmc.Settings'' [],
     Assign ''sett.batches'' (Num (10)),
     Assign ''sett.inactive'' (Num (0)),
     Assign ''sett.particles'' (Num (1000)),
     Assign ''sett.run_mode'' (Str ''fixed source''),
     Call (Some ''source'') ''openmc.Source'' [],
     Call (Some ''source.space'') ''openmc.stats.Point'' [('''', Seq [Num (0), Num (0),
         Num (0)])],
     Call (Some ''source.angle'') ''openmc.stats.Isotropic'' [],
     Call (Some ''source.energy'') ''openmc.stats.Discrete'' [('''', Seq [Num (14 * 10 ^ 6)]),
       ('''', Seq [Num (1)])],
     Assign ''sett.source'' (Var ''source''),
     Call (Some ''tallies'') ''openmc.Tallies'' [],
     Call (Some ''neutron_particle_filter'') ''openmc.ParticleFilter'' [('''',
         Seq [Str ''neutron''])],
     Call None ''np.linspace'' [('''', Num (0)), ('''', Num (15 * 10 ^ 6)), ('''', Num (200))],
     Call (Some ''energy_filter'') ''openmc.EnergyFilter'' [('''', Other)],
     Call (Some ''cell_filter'') ''openmc.CellFilter'' [('''', Var ''blanket_cell'')],
     Call (Some ''cell_spectra_tally'') ''openmc.Tally'' [(''name'',
         Str ''cell_spectra_tally'')],
     Assign ''cell_spectra_tally.scores'' (Seq [Str ''flux'']),
     Assign ''cell_spectra_tally.filters'' (Seq [Var ''cell_filter'',
         Var ''neutron_particle_filter'', Var ''energy_filter'']),
     Call None ''tallies.append'' [('''', Var ''cell_spectra_tally'')],
     Call (Some ''front_surface_filter'') ''openmc.SurfaceFilter'' [('''',
         Var ''vessel_inner_surface'')],
     Call (Some ''back_surface_filter'') ''openmc.SurfaceFilter'' [('''',
         Var ''vessel_rear_surface'')],
     Call (Some ''front_surface_spectra_tally'') ''openmc.Tally'' [(''name'',
         Str ''front_surface_spectra_tally'')],
     Assign ''front_surface_spectra_tally.scores'' (Seq [Str ''current'']),
     Assign ''front_surface_spectra_tally.filters'' (Seq [Var ''front_surface_filter'',
         Var ''neutron_particle_filter'', Var ''energy_filter'']),
     Call None ''tallies.append'' [('''', Var ''front_surface_spectra_tally'')],
     Call (Some ''back_surface_spectra_tally'') ''openmc.Tally'' [(''name'',
         Str ''back_surface_spectra_tally'')],
     Assign ''back_surface_spectra_tally.scores'' (Seq [Str ''current'']),
     Assign ''back_surface_spectra_tally.filters'' (Seq [Var ''back_surface_filter'',
         Var ''neutron_particle_filter'', Var ''energy_filter'']),
     Call None ''tallies.append'' [('''', Var ''back_surface_spectra_tally'')],
     Call (Some ''model'') ''openmc.model.Model'' [('''', Var ''geom''), ('''', Var ''mats''),
       ('''', Var ''sett''), ('''', Var ''tallies'')],
     Shell ''rm *.h5'',
     Call (Some ''results_filename'') ''model.run'' [],
     Call (Some ''results'') ''openmc.StatePoint'' [('''', Var ''results_filename'')],
     Call (Some ''cell_tally'') ''results.get_tally'' [(''name'', Str ''cell_spectra_tally'')],
     Call None ''plot_spectrum_from_tally'' [(''spectrum'', Other),
       (''x_label'', Str ''energy [eV]''),
       (''y_label'', Str ''flux [neutrons centimeter / source neutron]''),
       (''plotting_package'', Str ''plotly'')],
     Call (Some ''results'') ''openmc.StatePoint'' [('''', Var ''results_filename'')],
     Call (Some ''back_surface_tally'') ''results.get_tally'' [(''name'',
         Str ''back_surface_spectra_tally'')],
     Call (Some ''front_surface_tally'') ''results.get_tally'' [(''name'',
         Str ''front_surface_spectra_tally'')],
     Call None ''plot_spectrum_from_tally'' [(''spectrum'', Other),
       (''x_label'', Str ''energy [eV]''), (''y_label'', Str ''neutrons per source neutron''),
       (''plotting_package'', Str ''plotly''),
       (''required_units'', Str ''neutrons / source_particle'')]]"

text \<open>Task 14, 1_example_transmutation_isotope_build_up.ipynb.\<close>

definition depletion_notebook :: "stmt list" where
  "depletion_notebook =
    [Assign ''iron_sphere_radius'' (Num (250)),
     Call (Some ''mats'') ''openmc.Materials'' [],
     Call (Some ''my_material'') ''openmc.Material'' [(''name'', Str ''my_material'')],
     Call None ''my_material.add_nuclide'' [('''', Str ''Co59''), ('''', Num (1)),
       (''percent_type'', Str ''ao'')],
     Call None ''my_material.set_density'' [('''', Str ''g/cm3''), ('''', Num (7.7))],
     Assign ''my_material.volume'' (Other),
     Assign ''my_material.depletable'' (Const ''True''),
     Call (Some ''materials'') ''openmc.Materials'' [('''', Seq [Var ''my_material''])],
     Call None ''materials.export_to_xml'' [],
     Call (Some ''sph1'') ''openmc.Sphere'' [(''r'', Var ''iron_sphere_radius''),
       (''boundary_type'', Str ''vacuum'')],
     Call (Some ''shield_cell'') ''openmc.Cell'' [(''region'', Other)],
     Assign ''shield_cell.fill'' (Var ''my_material''),
     Assign ''shield_cell.volume'' (Other),
     Call (Some ''universe'') ''openmc.Universe'' [(''cells'', Seq [Var ''shield_cell''])],
     Call (Some ''geometry'') ''openmc.Geometry'' [('''', Var ''universe'')],
     Call (Some ''source'') ''openmc.Source'' [],
     Call (Some ''source.space'') ''openmc.stats.Point'' [('''', Seq [Num (0), Num (0),
         Num (0)])],
     Call (Some ''source.angle'') ''openmc.stats.Isotropic'' [],
     Call (Some ''source.energy'') ''openmc.stats.Discrete'' [('''', Seq [Num (14 * 10 ^ 6)]),
       ('''', Seq [Num (1)])],
     Assign ''source.particles'' (Str ''neutron''),
     Call (Some ''settings'') ''openmc.Settings'' [],
     Assign ''settings.batches'' (Num (2)),
     Assign ''settings.inactive'' (Num (0)),
     Assign ''settings.particles'' (Num (5000)),
     Assign ''settings.source'' (Var ''source''),
     Assign ''settings.run_mode'' (Str ''fixed source''),
     Call (Some ''tallies'') ''openmc.Tallies'' [],
     Call None ''geometry.export_to_xml'' [],
     Call None ''settings.export_to_xml'' [],
     Call None ''materials.export_to_xml'' [],
     Call (Some ''model'') ''openmc.model.Model'' [('''', Var ''geometry''),
       ('''', Var ''materials''), ('''', Var ''settings''), ('''', Var ''tallies'')],
     Assign ''chain_filename'' (Str ''/tasks/task_14_activation_transmutation_depletion/chain-nndc-b7.1.xml''),
     Call (Some ''operator'') ''openmc.deplete.Operator'' [(''model'', Var ''model''),
       (''chain_file'', Var ''chain_filename''), (''normalization_mode'', Str ''source-rate''),
       (''dilute_initial'', Num (0)), (''reduce_chain'', Const ''True'')],
     Call (Some ''operator'') ''openmc.deplete.Operator'' [('''', Var ''model''),
       ('''', Var ''chain_filename'')],
     Assign ''time_steps'' (Other),
     Assign ''source_rates'' (Other),
     Call (Some ''integrator'') ''openmc.deplete.PredictorIntegrator'' [(''operator'',
         Var ''operator''),
       (''timesteps'', Var ''time_steps''), (''source_rates'', Var ''source_rates'')],
     Call None ''integrator.integrate'' [],
     Call (Some ''results'') ''openmc.deplete.ResultsList.from_hdf5'' [('''',
         Str ''depletion_results.h5'')],
     Call (Some ''times, number_of_co60_atoms'') ''results.get_atoms'' [('''',
         Var ''my_material''),
       ('''', Str ''Co60'')],
     Call (Some ''fig, ax'') ''plt.subplots'' [],
     Call None ''ax.plot'' [('''', Var ''times''), ('''', Var ''number_of_co60_atoms'')],
     Call None ''ax.set'' [(''xlabel'', Str ''time (s)''),
       (''ylabel'', Str ''Number of atoms''), (''title'', Other)],
     Call None ''ax.grid'' [],
     Call None ''plt.savefig'' [('''', Str ''atoms.png'')],
     Call None ''plt.show'' []]"

text \<open>The notebook Part 1 - Making a parametric shape.\<close>

definition parametric_shape_notebook :: "stmt list" where
  "parametric_shape_notebook =
    [Call None ''HTML'' [('''', Other)],
     Call (Some ''my_shape'') ''paramak.RotateStraightShape'' [(''points'', Seq [Seq [Num (50),
         Num (50)], Seq [Num (50), Num (100)], Seq [Num (100), Num (100)], Seq [Num (100),
         Num (50)]]),
       (''rotation_angle'', Num (180))],
     Call None ''my_shape.show'' [],
     Call (Some ''my_shape'') ''paramak.RotateSplineShape'' [(''points'', Seq [Seq [Num (50),
         Num (50)], Seq [Num (50), Num (100)], Seq [Num (100), Num (100)], Seq [Num (100),
         Num (50)]]),
       (''rotation_angle'', Num (180))],
     Call None ''my_shape.show'' [],
     Call (Some ''my_shape'') ''paramak.ExtrudeStraightShape'' [(''points'', Seq [Seq [Num (50),
         Num (50)], Seq [Num (50), Num (100)], Seq [Num (100), Num (100)], Seq [Num (100),
         Num (50)]]),
       (''distance'', Num (20))],
     Call None ''my_shape.show'' [],
     Call (Some ''my_shape'') ''paramak.ExtrudeSplineShape'' [(''points'', Seq [Seq [Num (50),
         Num (50)], Seq [Num (50), Num (100)], Seq [Num (100), Num (100)], Seq [Num (100),
         Num (50)]]),
       (''distance'', Num (20))],
     Call None ''my_shape.show'' [],
     Call (Some ''small_Shape'') ''paramak.ExtrudeStraightShape'' [(''points'',
         Seq [Seq [Num (60), Num (60)], Seq [Num (60), Num (90)], Seq [Num (90), Num (90)],
         Seq [Num (90), Num (60)]]),
       (''distance'', Num (20))],
     Call (Some ''my_shape'') ''paramak.ExtrudeStraightShape'' [(''points'', Seq [Seq [Num (50),
         Num (50)], Seq [Num (50), Num (100)], Seq [Num (100), Num (100)], Seq [Num (100),
         Num (50)]]),
       (''distance'', Num (20)), (''cut'', Var ''small_Shape'')],
     Call None ''my_shape.show'' [],
     Call None ''my_shape.export_stp'' [('''', Str ''example_shape.stp'')],
     Call None ''my_shape.export_stl'' [('''', Str ''example_shape.stl'')],
     Call None ''stl_to_h5m'' [(''files_with_tags'', Seq [Seq [Str ''example_shape.stl'',
         Str ''mat1'']]),
       (''h5m_filename'', Str ''dagmc.h5m'')],
     Call None ''os.system'' [('''', Str ''mbconvert dagmc.h5m dagmc.vtk'')],
     Call None ''FileLink'' [('''', Str ''example_shape.stp'')],
     Call None ''display'' [('''', Other)],
     Call None ''FileLink'' [('''', Str ''example_shape.stl'')],
     Call None ''display'' [('''', Other)],
     Call None ''FileLink'' [('''', Str ''dagmc.vtk'')],
     Call None ''display'' [('''', Other)]]"

text \<open>
  The notebooks that call \<open>run()\<close> on a model, in the order of the list above.
\<close>

definition simulation_notebooks :: "stmt list list" where
  "simulation_notebooks =
     [tbr_notebook, find_dpa_notebook, mesh_2d_notebook, photon_spectra_notebook,
      mesh_3d_notebook, cad_heat_notebook, neutron_spectra_notebook]"

fun callee :: "stmt \<Rightarrow> string" where
  "callee (Call t f as) = f"
| "callee _ = []"

fun target :: "stmt \<Rightarrow> string" where
  "target (Call (Some t) f as) = t"
| "target (Assign t e) = t"
| "target _ = []"

fun arguments :: "stmt \<Rightarrow> (string \<times> expr) list" where
  "arguments (Call t f as) = as"
| "arguments _ = []"

definition argument :: "string \<Rightarrow> nat \<Rightarrow> stmt \<Rightarrow> expr option" where
  \<comment> \<open>the argument passed by keyword \<open>k\<close> or, without keyword, at position \<open>n\<close>\<close>
  "argument k n s =
     (case map_of (arguments s) k of
        Some e \<Rightarrow> Some e
      | None \<Rightarrow>
          (let positional = filter (\<lambda>a. fst a = []) (arguments s)
           in if n < length positional then Some (snd (positional ! n)) else None))"

fun find_first :: "('a \<Rightarrow> bool) \<Rightarrow> 'a list \<Rightarrow> ('a \<times> 'a list) option" where
  "find_first P [] = None"
| "find_first P (x # xs) = (if P x then Some (x, xs) else find_first P xs)"

definition assigned :: "string \<Rightarrow> stmt list \<Rightarrow> expr option" where
  \<comment> \<open>the expression last assigned to a variable\<close>
  "assigned v ss =
     (case find_first (\<lambda>s. target s = v) (rev ss) of
        Some (Assign t e, _) \<Rightarrow> Some e
      | _ \<Rightarrow> None)"

definition constructs :: "string list \<Rightarrow> stmt list \<Rightarrow> bool" where
  "constructs classes ss = list_ex (\<lambda>s. callee s \<in> set classes) ss"

definition constructs_model_inputs :: "stmt list \<Rightarrow> bool" where
  \<comment> \<open>Material, Geometry, Settings, Tally and Source objects, of OpenMC or of its wrappers\<close>
  "constructs_model_inputs ss =
     (constructs [''openmc.Material'', ''odw.Materials''] ss
      \<and> constructs [''openmc.Geometry'', ''odw.Geometry''] ss
      \<and> constructs [''openmc.Settings'', ''odw.FusionSettings''] ss
      \<and> constructs [''openmc.Tally'', ''odw.CellTally''] ss
      \<and> constructs [''openmc.Source'', ''ops.FusionRingSource''] ss)"

text \<open>
  The sequence of the OpenMC interface: the inputs and the model are constructed, the
  model's \<open>run()\<close> returns a file name that is kept, a \<open>StatePoint\<close> is opened after it and
  a tally is fetched from that statepoint. The result is the run, the statepoint and the
  tally statements and what follows them.
\<close>

definition run_and_read_back :: "stmt list \<Rightarrow> (stmt \<times> stmt \<times> stmt \<times> stmt list) option" where
  "run_and_read_back nb =
     (case find_first (\<lambda>s. callee s \<in> set [''openmc.model.Model'', ''openmc.Model'']) nb of
        None \<Rightarrow> None
      | Some (model, after_model) \<Rightarrow>
     (case find_first (\<lambda>s. callee s = target model @ ''.run'') after_model of
        None \<Rightarrow> None
      | Some (run, after_run) \<Rightarrow>
     (case find_first (\<lambda>s. callee s = ''openmc.StatePoint'') after_run of
        None \<Rightarrow> None
      | Some (statepoint, after_statepoint) \<Rightarrow>
     (case find_first (\<lambda>s. callee s = target statepoint @ ''.get_tally'') after_statepoint of
        None \<Rightarrow> None
      | Some (tally, after_tally) \<Rightarrow>
          if constructs_model_inputs (takeWhile (\<lambda>s. callee s \<noteq> target model @ ''.run'') nb)
             \<and> target run \<noteq> []
          then Some (run, statepoint, tally, after_tally)
          else None))))"

definition follows_interface_sequence :: "stmt list \<Rightarrow> bool" where
  \<comment> \<open>the sequence, ending in the tally's extraction as a table\<close>
  "follows_interface_sequence nb =
     (case run_and_read_back nb of
        None \<Rightarrow> False
      | Some (run, statepoint, tally, after_tally) \<Rightarrow>
          list_ex (\<lambda>s. callee s = target tally @ ''.get_pandas_dataframe'') after_tally)"

definition read_back_summary :: "stmt list \<Rightarrow> (string \<times> expr list \<times> string list) option" where
  \<comment> \<open>the variable that receives the file name, what \<open>StatePoint\<close> is given, and the call
      that follows \<open>get_tally\<close>\<close>
  "read_back_summary nb =
     (case run_and_read_back nb of
        None \<Rightarrow> None
      | Some (run, statepoint, tally, after_tally) \<Rightarrow>
          Some (target run, map snd (arguments statepoint),
                map callee (take 1 (filter (\<lambda>s. callee s \<noteq> []) after_tally))))"


text \<open>
  The depletion interface: the operator the integrator is given is the one constructed
  last before it; the integrator is run, the results are loaded from an HDF5 file and
  read. The result is the operator's chain file (a variable is followed to the literal
  assigned to it), the two schedule arguments and the name of the results file.
\<close>

definition resolve :: "stmt list \<Rightarrow> expr \<Rightarrow> expr" where
  "resolve ss e =
     (case e of
        Var v \<Rightarrow> (case assigned v ss of Some e' \<Rightarrow> e' | None \<Rightarrow> e)
      | _ \<Rightarrow> e)"

definition depletion_interface ::
  "stmt list \<Rightarrow> (expr option \<times> expr option \<times> expr option \<times> expr option) option" where
  "depletion_interface nb =
     (let before_integrator =
            takeWhile (\<lambda>s. callee s \<noteq> ''openmc.deplete.PredictorIntegrator'') nb in
      case find_first (\<lambda>s. callee s = ''openmc.deplete.Operator'') (rev before_integrator) of
        None \<Rightarrow> None
      | Some (operator, _) \<Rightarrow>
     (case find_first (\<lambda>s. callee s = ''openmc.deplete.PredictorIntegrator'') nb of
        None \<Rightarrow> None
      | Some (integrator, after_integrator) \<Rightarrow>
     (case find_first (\<lambda>s. callee s = target integrator @ ''.integrate'') after_integrator of
        None \<Rightarrow> None
      | Some (integrate, after_integrate) \<Rightarrow>
     (case find_first (\<lambda>s. callee s = ''openmc.deplete.ResultsList.from_hdf5'')
             after_integrate of
        None \<Rightarrow> None
      | Some (results, after_results) \<Rightarrow>
          if argument ''operator'' 0 integrator = Some (Var (target operator))
             \<and> target results \<noteq> []
             \<and> list_ex (\<lambda>s. callee s = target results @ ''.get_atoms'') after_results
          then Some (map_option (resolve before_integrator) (argument ''chain_file'' 1 operator),
                     argument ''timesteps'' 1 integrator,
                     argument ''source_rates'' 2 integrator,
                     argument ''filename'' 0 results)
          else None))))"

text \<open>
  The paramak interface: a shape is constructed from a list of 2D points and an operation,
  a rotation by an angle or an extrusion by a distance; one shape is cut from another
  through the argument \<open>cut\<close>; the cut shape is exported to a STEP and an STL file, and
  \<open>stl_to_h5m\<close> converts that STL file to a DAGMC h5m file.
\<close>

fun is_point :: "expr \<Rightarrow> bool" where
  "is_point (Seq [Num x, Num y]) = True"
| "is_point _ = False"

fun is_points :: "expr option \<Rightarrow> bool" where
  "is_points (Some (Seq ps)) = (ps \<noteq> [] \<and> list_all is_point ps)"
| "is_points _ = False"

fun is_number :: "expr option \<Rightarrow> bool" where
  "is_number (Some (Num x)) = True"
| "is_number _ = False"

definition shape_operation :: "stmt \<Rightarrow> string" where
  "shape_operation s =
     (if callee s \<in> set [''paramak.RotateStraightShape'', ''paramak.RotateSplineShape'']
         \<and> is_points (map_of (arguments s) ''points'')
         \<and> is_number (map_of (arguments s) ''rotation_angle'')
      then ''rotate''
      else if callee s \<in> set [''paramak.ExtrudeStraightShape'', ''paramak.ExtrudeSplineShape'']
         \<and> is_points (map_of (arguments s) ''points'')
         \<and> is_number (map_of (arguments s) ''distance'')
      then ''extrude''
      else [])"

definition is_shape :: "stmt \<Rightarrow> bool" where
  "is_shape s = (take 8 (callee s) = ''paramak.'')"

fun stl_input :: "expr option \<Rightarrow> string" where
  "stl_input (Some (Seq [Seq [Str file, Str tag]])) = file"
| "stl_input _ = []"

fun variable :: "expr option \<Rightarrow> string" where
  "variable (Some (Var v)) = v"
| "variable _ = []"

fun file_name :: "expr option \<Rightarrow> string" where
  "file_name (Some (Str file)) = file"
| "file_name _ = []"

definition cad_interface ::
  "stmt list \<Rightarrow> (string list \<times> (string \<times> string) \<times> string list) option" where
  "cad_interface nb =
     (case find_first (\<lambda>s. map_of (arguments s) ''cut'' \<noteq> None) nb of
        None \<Rightarrow> None
      | Some (cut_shape, after_cut) \<Rightarrow>
     (case find_first (\<lambda>s. callee s = target cut_shape @ ''.export_stp'') after_cut of
        None \<Rightarrow> None
      | Some (export_stp, _) \<Rightarrow>
     (case find_first (\<lambda>s. callee s = target cut_shape @ ''.export_stl'') after_cut of
        None \<Rightarrow> None
      | Some (export_stl, after_stl) \<Rightarrow>
     (case find_first (\<lambda>s. callee s = ''stl_to_h5m'') after_stl of
        None \<Rightarrow> None
      | Some (to_h5m, _) \<Rightarrow>
          if list_all (\<lambda>s. target s \<noteq> target cut_shape)
               (takeWhile (\<lambda>s. callee s \<noteq> ''stl_to_h5m'') after_cut)
             \<and> list_ex (\<lambda>s. is_shape s
                             \<and> map_of (arguments cut_shape) ''cut'' = Some (Var (target s)))
                  (takeWhile (\<lambda>s. map_of (arguments s) ''cut'' = None) nb)
             \<and> stl_input (argument ''files_with_tags'' 0 to_h5m)
                 = file_name (argument ''filename'' 0 export_stl)
          then Some (map shape_operation (filter is_shape nb),
                     (target cut_shape, variable (map_of (arguments cut_shape) ''cut'')),
                     [file_name (argument ''filename'' 0 export_stp),
                      file_name (argument ''filename'' 0 export_stl),
                      file_name (argument ''h5m_filename'' 1 to_h5m)])
          else None))))"


section \<open>Exceptions in a straight-line notebook\<close>






section \<open>Task 14: the depletion cells\<close>

text \<open>
  The cell that sets up and runs the depletion, and the cell that loads its results. The
  library \<open>openmc.deplete\<close> is external. An operator and an integrator are the arguments
  they were constructed with (the operator's model left out); the integrator's constructor
  raises \<open>ValueError\<close> when the numbers of time steps and of source rates differ. What the
  transport and depletion runs of \<open>integrate()\<close> do is a parameter, \<open>deplete\<close>: they
  raise, or return the results and the file system with the files the runs have left. From
  the library's documentation the model takes where the results go: \<open>integrate()\<close> writes
  them to the file \<open>depletion_results.h5\<close> of the working directory, and
  \<open>ResultsList.from_hdf5(name)\<close> reads the results that the file \<open>name\<close> holds.
\<close>

datatype Operator = Operator string "(string \<times> expr) list"

datatype Integrator = PredictorIntegrator Operator "int list" "real list"

definition new_PredictorIntegrator ::
  "Operator \<Rightarrow> int list \<Rightarrow> real list \<Rightarrow> error + Integrator" where
  "new_PredictorIntegrator operator timesteps rates =
     (if length rates \<noteq> length timesteps then Inl ValueError
      else Inr (PredictorIntegrator operator timesteps rates))"

definition integrate ::
  "(Integrator \<Rightarrow> 'r filesystem \<Rightarrow> error + 'r \<times> 'r filesystem) \<Rightarrow> Integrator
     \<Rightarrow> 'r filesystem \<Rightarrow> error + 'r filesystem" where
  "integrate deplete integrator fs =
     (case deplete integrator fs of
        Inl e \<Rightarrow> Inl e
      | Inr (results, fs1) \<Rightarrow> open_write [''depletion_results.h5''] results fs1)"

definition from_hdf5 :: "string \<Rightarrow> 'r filesystem \<Rightarrow> error + 'r" where
  "from_hdf5 name fs = read_file name fs"

definition depletion_cells ::
  "(Integrator \<Rightarrow> 'r filesystem \<Rightarrow> error + 'r \<times> 'r filesystem) \<Rightarrow> 'r filesystem
     \<Rightarrow> error + 'r \<times> 'r filesystem" where
  "depletion_cells deplete fs =
     (let operator = Operator chain_filename
                       [(''normalization_mode'', Str ''source-rate''),
                        (''dilute_initial'', Num 0), (''reduce_chain'', Const ''True'')];
          operator = Operator chain_filename []
      in case new_PredictorIntegrator operator time_steps source_rates of
           Inl e \<Rightarrow> Inl e
         | Inr integrator \<Rightarrow>
        (case integrate deplete integrator fs of
           Inl e \<Rightarrow> Inl e
         | Inr fs2 \<Rightarrow>
        (case from_hdf5 ''depletion_results.h5'' fs2 of
           Inl e \<Rightarrow> Inl e
         | Inr results \<Rightarrow> Inr (results, fs2))))"


section \<open>Auxiliary lemmas\<close>


lemma number_of_iron_atoms_eq_0_iff: "number_of_iron_atoms v = 0 \<longleftrightarrow> v = 0"
  by (simp add: number_of_iron_atoms_def iron_atomic_mass_in_g_def
      density_of_iron_in_g_per_cm3_def)


lemma splitpath_not_Nil: "splitpath s \<noteq> []"
  by (induction s) (auto split: list.splits)

lemma splitpath_no_separator:
  "CHR ''/'' \<notin> set v \<Longrightarrow>
     splitpath (v @ rest) = (case splitpath rest of [] \<Rightarrow> [v] | w # ws \<Rightarrow> (v @ w) # ws)"
  using splitpath_not_Nil [of rest]
  by (induction v) (auto split: list.splits)

lemma Path_outputs_uuid:
  assumes "CHR ''/'' \<notin> set u"
  shows "Path (''outputs/'' @ u @ ''.json'') = [''outputs'', u @ ''.json'']"
proof -
  have "splitpath (u @ ''.json'') = [u @ ''.json'']"
    using splitpath_no_separator [OF assms, of "''.json''"] by simp
  then show ?thesis by (simp add: Path_def)
qed

lemma mkdir_error: "mkdir p fs = Inl e \<Longrightarrow> e = NotADirectoryError \<or> e = FileExistsError"
  by (auto simp: mkdir_def split: if_splits)

lemma mkdir_result:
  "mkdir p fs = Inr fs1 \<Longrightarrow> files fs1 = files fs \<and> dirs fs1 = dirs fs \<union> set (tl (prefixes p))"
  by (auto simp: mkdir_def split: if_splits)

lemma last_in_tl_prefixes: "p \<noteq> [] \<Longrightarrow> p \<in> set (tl (prefixes p))"
  by (cases p) auto

lemma mkdir_is_dir: "mkdir p fs = Inr fs1 \<Longrightarrow> is_dir fs1 p"
  using last_in_tl_prefixes [of p]
  by (auto simp: is_dir_def dest!: mkdir_result)

lemma open_write_after_mkdir:
  "mkdir (parent p) fs = Inr fs1 \<Longrightarrow> open_write p c fs1 \<noteq> Inl FileNotFoundError"
  by (auto simp: open_write_def dest: mkdir_is_dir)

lemmas fs_defs =
  output_result_def output_result_filepath_def Path_def parent_def mkdir_def ancestors_def
  open_write_def is_dir_def empty_fs_def read_file_def


lemma column_values_map_JObj:
  "column_values k (map (\<lambda>x. JObj [(k1, JNum (f x)), (k2, JNum (g x))]) xs)
     = (if xs = [] then Inr []
        else if k = k1 then Inr (map f xs)
        else if k = k2 then Inr (map g xs) else Inl KeyError)"
  by (induction xs) auto

lemma column_map_JObj:
  "xs \<noteq> [] \<Longrightarrow>
   column k (map (\<lambda>x. JObj [(k1, JNum (f x)), (k2, JNum (g x))]) xs)
     = (if k = k1 then Inr (map f xs)
        else if k = k2 then Inr (map g xs) else Inl KeyError)"
  by (simp add: column_def column_values_map_JObj)

lemma decoded_tbr_values:
  "map (decoded number) (tbr_values objective)
     = map (\<lambda>x. JObj [(''breeder_percent_in_breeder_plus_multiplier'', JNum (number x)),
                       (''tbr'', JNum (number (- objective [x])))])
         (linspace 0 100 101)"
  by (simp add: tbr_values_def)

lemma number_items_map: "number_items (map (\<lambda>(x, y). (x, JNum y)) kvs) = Inr kvs"
  by (induction kvs) auto

lemma linspace_not_Nil: "0 < n \<Longrightarrow> linspace a b n \<noteq> []"
  by (simp add: linspace_def)

lemma length_linspace_101: "length (linspace 0 100 101) = 101"
  by (simp add: linspace_def)

text \<open>
  The three cells of the 1D study, from a file system where \<open>outputs\<close> is not a regular
  file and the two file names are not directories: the files they write and the figure.
\<close>

lemma study_1d_cells:
  assumes outputs: "[''outputs''] \<notin> dom (files fs)"
    and nodir: "[''outputs'', ''1d_tbr_values.json''] \<notin> dirs fs"
               "[''outputs'', ''1d_optimised_values.json''] \<notin> dirs fs"
    and samples: "learner_data \<noteq> []"
    and fs1: "fs1 = fs\<lparr>dirs := insert [''outputs''] (dirs fs),
                files := (files fs)([''outputs'', ''1d_tbr_values.json'']
                                      \<mapsto> JArr (tbr_values objective))\<rparr>"
    and fs2: "fs2 = fs1\<lparr>files := (files fs1)([''outputs'', ''1d_optimised_values.json'']
                           \<mapsto> JObj (map (\<lambda>(x, y). (x, JNum y)) learner_data))\<rparr>"
  shows "get_true_values_1D objective fs = Inr fs1
    \<and> get_optimised_values_1d learner_data fs1 = Inr fs2
    \<and> read_file ''outputs/1d_tbr_values.json'' fs2 = Inr (JArr (tbr_values objective))
    \<and> read_json number ''outputs/1d_tbr_values.json'' fs2
           = Inr (map (decoded number) (tbr_values objective))
    \<and> column ''tbr'' (tbr_values objective)
           = Inr (map (\<lambda>x. - objective [x]) (linspace 0 100 101))
    \<and> column ''tbr'' (map (decoded number) (tbr_values objective))
           = Inr (map (\<lambda>x. number (- objective [x])) (linspace 0 100 101))
    \<and> plot_1d_optimisation number fs2 =
      Inr \<lparr>printed = (last (map (\<lambda>i. - snd i) learner_data), last (map fst learner_data)),
           samples_from_optimisation = (map fst learner_data, map (\<lambda>i. - snd i) learner_data),
           true_value = (map number (linspace 0 100 101),
                         map (\<lambda>x. number (- objective [x])) (linspace 0 100 101))\<rparr>"
proof -
  let ?p1 = "[''outputs'', ''1d_tbr_values.json'']"
  let ?p2 = "[''outputs'', ''1d_optimised_values.json'']"
  let ?xs = "linspace 0 100 101"
  have p1: "Path ''outputs/1d_tbr_values.json'' = ?p1"
    and p2: "Path ''outputs/1d_optimised_values.json'' = ?p2"
    by (simp_all add: Path_def)
  have w1: "get_true_values_1D objective fs = Inr fs1"
    unfolding get_true_values_1D_def output_result_filepath_def Let_def p1
    using outputs nodir(1)
    by (simp add: fs1 parent_def mkdir_def ancestors_def open_write_def is_dir_def)
  have w2: "get_optimised_values_1d learner_data fs1 = Inr fs2"
    unfolding get_optimised_values_1d_def output_result_filepath_def Let_def p2
    using outputs nodir(2)
    by (simp add: fs1 fs2 parent_def mkdir_def ancestors_def open_write_def is_dir_def
        insert_absorb)
  have xs: "?xs \<noteq> []"
    by (rule linspace_not_Nil) simp
  have written: "read_file ''outputs/1d_tbr_values.json'' fs2
                   = Inr (JArr (tbr_values objective))"
    unfolding read_file_def p1 by (simp add: fs1 fs2)
  then have r2: "read_json number ''outputs/1d_tbr_values.json'' fs2
                   = Inr (map (decoded number) (tbr_values objective))"
    by (simp add: read_json_def)
  have col_s: "column ''tbr'' (tbr_values objective)
                 = Inr (map (\<lambda>x. - objective [x]) ?xs)"
    unfolding tbr_values_def using xs by (simp add: column_map_JObj)
  have col_x: "column ''breeder_percent_in_breeder_plus_multiplier''
                 (map (decoded number) (tbr_values objective)) = Inr (map number ?xs)"
    unfolding decoded_tbr_values using xs by (simp add: column_map_JObj)
  have col_t: "column ''tbr'' (map (decoded number) (tbr_values objective))
                 = Inr (map (\<lambda>x. number (- objective [x])) ?xs)"
    unfolding decoded_tbr_values using xs by (simp add: column_map_JObj)
  have l2: "load_items ''outputs/1d_optimised_values.json'' fs2 = Inr learner_data"
    unfolding load_items_def read_file_def p2 by (simp add: fs2 number_items_map)
  have plot: "plot_1d_optimisation number fs2 =
      Inr \<lparr>printed = (last (map (\<lambda>i. - snd i) learner_data), last (map fst learner_data)),
           samples_from_optimisation = (map fst learner_data, map (\<lambda>i. - snd i) learner_data),
           true_value = (map number ?xs, map (\<lambda>x. number (- objective [x])) ?xs)\<rparr>"
    unfolding plot_1d_optimisation_def Let_def
    using samples by (simp add: r2 l2 col_x col_t comp_def)
  from w1 w2 written r2 col_s col_t plot show ?thesis
    by (intro conjI)
qed

text \<open>
  The exponents are those of the definition's comments, and \<open>double x\<close> is a multiple of
  the unit in the last place of \<open>x\<close> that is nearest to \<open>x\<close>.
\<close>

lemma digit_count_nonneg: "0 \<le> digit_count b n"
proof (induction b n rule: digit_count.induct)
  case (1 b n)
  then show ?case by (subst digit_count.simps) auto
qed

lemma digit_count_pos: "1 < b \<Longrightarrow> 0 < n \<Longrightarrow> 0 < digit_count b n"
  using digit_count_nonneg [of b "n div b"] by (subst digit_count.simps) auto

lemma digit_count_bounds:
  "1 < b \<Longrightarrow> 0 < n \<Longrightarrow>
     b ^ nat (digit_count b n - 1) \<le> n \<and> n < b ^ nat (digit_count b n)"
proof (induction b n rule: digit_count.induct)
  case (1 b n)
  show ?case
  proof (cases "n < b")
    case True
    then have "n div b = 0" using 1 by simp
    then have "digit_count b n = 1"
      using 1 by (subst digit_count.simps) (simp add: digit_count.simps [of b 0])
    then show ?thesis using True 1 by simp
  next
    case False
    then have pos: "0 < n div b"
      using 1 by (simp add: pos_imp_zdiv_pos_iff)
    have dc: "digit_count b n = 1 + digit_count b (n div b)"
      using 1 by (subst digit_count.simps) simp
    have IH: "b ^ nat (digit_count b (n div b) - 1) \<le> n div b"
      "n div b < b ^ nat (digit_count b (n div b))"
      using 1 pos by auto
    have dpos: "0 < digit_count b (n div b)"
      using 1 pos by (simp add: digit_count_pos)
    have "b ^ nat (digit_count b n - 1) = b ^ nat (digit_count b (n div b) - 1) * b"
      using dpos by (simp add: dc nat_diff_distrib flip: power_Suc2)
    also have "\<dots> \<le> (n div b) * b"
      using IH(1) 1 by (simp add: mult_right_mono)
    also have "\<dots> \<le> n"
    proof -
      have "n div b * b + n mod b = n" by simp
      moreover have "0 \<le> n mod b" using 1 by simp
      ultimately show ?thesis by linarith
    qed
    finally have lower: "b ^ nat (digit_count b n - 1) \<le> n" .
    have "n div b + 1 \<le> b ^ nat (digit_count b (n div b))"
      using IH(2) by simp
    then have "(n div b + 1) * b \<le> b ^ nat (digit_count b (n div b)) * b"
      using 1 by (simp add: mult_right_mono)
    moreover have "n < (n div b + 1) * b"
    proof -
      have "n div b * b + n mod b = n" by simp
      moreover have "n mod b < b" using 1 by simp
      moreover have "(n div b + 1) * b = n div b * b + b" by (simp add: algebra_simps)
      ultimately show ?thesis by linarith
    qed
    moreover have "b ^ nat (digit_count b (n div b)) * b = b ^ nat (digit_count b n)"
      using dpos by (simp add: dc nat_add_distrib)
    ultimately show ?thesis using lower by simp
  qed
qed


lemma floor_log_bounds:
  fixes x :: real
  assumes b: "1 < b" and x: "0 < x"
  defines "e \<equiv> (if 1 \<le> x then digit_count b \<lfloor>x\<rfloor> - 1 else - digit_count b (\<lceil>1 / x\<rceil> - 1))"
  shows "real_of_int b powi e \<le> x \<and> x < real_of_int b powi (e + 1)"
proof (cases "1 \<le> x")
  case True
  let ?n = "\<lfloor>x\<rfloor>"
  let ?d = "digit_count b ?n"
  have n: "0 < ?n" using True by simp
  have d: "0 < ?d" using b n by (rule digit_count_pos)
  have bounds: "b ^ nat (?d - 1) \<le> ?n" "?n < b ^ nat ?d"
    using digit_count_bounds [OF b n] by auto
  have e: "e = ?d - 1" using True by (simp add: e_def)
  have "real_of_int b powi e = real_of_int (b ^ nat (?d - 1))"
    using d by (simp add: e power_int_def)
  also have "\<dots> \<le> real_of_int ?n"
    using bounds(1) by (simp only: of_int_le_iff)
  also have "\<dots> \<le> x" by simp
  finally have lower: "real_of_int b powi e \<le> x" .
  have "?n + 1 \<le> b ^ nat ?d" using bounds(2) by simp
  then have "real_of_int (?n + 1) \<le> real_of_int (b ^ nat ?d)"
    by (simp only: of_int_le_iff)
  then have "real_of_int ?n + 1 \<le> real_of_int (b ^ nat ?d)"
    by simp
  moreover have "x < real_of_int ?n + 1" by linarith
  moreover have "real_of_int b powi (e + 1) = real_of_int (b ^ nat ?d)"
    using d by (simp add: e power_int_def)
  ultimately have "x < real_of_int b powi (e + 1)" by linarith
  with lower show ?thesis by simp
next
  case False
  let ?y = "1 / x"
  let ?m = "\<lceil>?y\<rceil> - 1"
  let ?d = "digit_count b ?m"
  have y: "1 < ?y" using False x by simp
  then have m: "0 < ?m" by simp
  have d: "0 < ?d" using b m by (rule digit_count_pos)
  have bounds: "b ^ nat (?d - 1) \<le> ?m" "?m < b ^ nat ?d"
    using digit_count_bounds [OF b m] by auto
  have e: "e = - ?d" using False by (simp add: e_def)
  have bpos: "0 < (of_int b :: real)" using b by simp
  have "(of_int (b ^ nat (?d - 1)) :: real) \<le> of_int ?m"
    using bounds(1) by (simp only: of_int_le_iff)
  also have "\<dots> < ?y" by linarith
  finally have lo: "(of_int b :: real) ^ nat (?d - 1) < ?y" by simp
  have "\<lceil>?y\<rceil> \<le> b ^ nat ?d" using bounds(2) by simp
  then have "real_of_int \<lceil>?y\<rceil> \<le> real_of_int (b ^ nat ?d)"
    by (simp only: of_int_le_iff)
  moreover have "?y \<le> real_of_int \<lceil>?y\<rceil>" by (rule le_of_int_ceiling)
  ultimately have "?y \<le> real_of_int (b ^ nat ?d)" by (rule order_trans [rotated])
  then have hi: "?y \<le> (of_int b :: real) ^ nat ?d" by simp
  have pd: "0 < (of_int b :: real) ^ nat ?d" and pd1: "0 < (of_int b :: real) ^ nat (?d - 1)"
    using bpos by simp_all
  have "real_of_int b powi e = 1 / real_of_int b ^ nat ?d"
    using d by (simp add: e power_int_def field_simps)
  also have "\<dots> \<le> x"
    using hi x pd by (simp add: field_simps)
  finally have lower: "real_of_int b powi e \<le> x" .
  have "x < 1 / (of_int b :: real) ^ nat (?d - 1)"
    using lo x pd1 by (simp add: field_simps)
  also have "\<dots> = real_of_int b powi (e + 1)"
  proof (cases "?d = 1")
    case True
    then show ?thesis by (simp add: e)
  next
    case False
    then have "e + 1 < 0" "nat (- (e + 1)) = nat (?d - 1)" using d by (simp_all add: e)
    then show ?thesis by (simp add: power_int_def field_simps)
  qed
  finally show ?thesis using lower by simp
qed

lemma binary_exponent_bounds:
  "0 < x \<Longrightarrow> 2 powi binary_exponent x \<le> x \<and> x < 2 powi (binary_exponent x + 1)"
  using floor_log_bounds [of 2 x] by (simp add: binary_exponent_def)

lemma decimal_point_bounds:
  "0 < x \<Longrightarrow> 10 powi (decimal_point x - 1) \<le> x \<and> x < 10 powi decimal_point x"
  using floor_log_bounds [of 10 x]
  by (cases "1 \<le> x") (simp_all add: decimal_point_def add.commute [of _ 1])

lemma round_half_even_nearest:
  "\<bar>of_int (round_half_even y) - y\<bar> \<le> \<bar>of_int k - y\<bar>"
proof -
  let ?n = "\<lfloor>y\<rfloor>"
  have fl: "of_int ?n \<le> y" "y < of_int ?n + 1" by linarith+
  consider "k \<le> ?n" | "?n + 1 \<le> k" by linarith
  then show ?thesis
  proof cases
    case 1
    then have "(of_int k :: real) \<le> of_int ?n" by (simp only: of_int_le_iff)
    then show ?thesis using fl
      by (auto simp: round_half_even_def Let_def) 
  next
    case 2
    then have "(of_int (?n + 1) :: real) \<le> of_int k" by (simp only: of_int_le_iff)
    then show ?thesis using fl
      by (auto simp: round_half_even_def Let_def)
  qed
qed

lemma double_nearest:
  assumes "x \<noteq> 0"
  defines "ulp \<equiv> 2 powi (max (binary_exponent \<bar>x\<bar>) (- 1022) - 52)"
  shows "double x = of_int (round_half_even (x / ulp)) * ulp"
    and "\<bar>double x - x\<bar> \<le> \<bar>of_int k * ulp - x\<bar>"
proof -
  have ulp: "0 < ulp" by (simp add: ulp_def)
  show eq: "double x = of_int (round_half_even (x / ulp)) * ulp"
    using assms by (simp add: double_def Let_def)
  have "\<bar>of_int (round_half_even (x / ulp)) - x / ulp\<bar> \<le> \<bar>of_int k - x / ulp\<bar>"
    by (rule round_half_even_nearest)
  then have "\<bar>of_int (round_half_even (x / ulp)) - x / ulp\<bar> * ulp \<le> \<bar>of_int k - x / ulp\<bar> * ulp"
    using ulp by (simp add: mult_right_mono)
  moreover have "\<bar>of_int j - x / ulp\<bar> * ulp = \<bar>of_int j * ulp - x\<bar>" for j
  proof -
    have "\<bar>of_int j - x / ulp\<bar> * ulp = \<bar>(of_int j - x / ulp) * ulp\<bar>"
      using ulp by (simp add: abs_mult)
    also have "(of_int j - x / ulp) * ulp = of_int j * ulp - x"
      using ulp by (simp add: field_simps)
    finally show ?thesis .
  qed
  ultimately show "\<bar>double x - x\<bar> \<le> \<bar>of_int k * ulp - x\<bar>"
    by (simp add: eq)
qed

text \<open>
  The float nearest to one third, the text \<open>0.3333333333333333\<close> that \<open>json.dump\<close>
  writes for it, and the float \<open>0.33333333333333304\<close> that the decoder of \<open>pd.read_json\<close>
  makes of that text.
\<close>

lemma float_repr_third:
  "float_repr (6004799503160661 / 18014398509481984) =
     \<lparr>negative = False, integer_digits = [0],
      fraction_digits = [3, 3, 3, 3, 3, 3, 3, 3, 3, 3, 3, 3, 3, 3, 3, 3], exponent = None\<rparr>"
  by code_simp

lemma decode_numeric_third:
  "decode_numeric
     \<lparr>negative = False, integer_digits = [0],
      fraction_digits = [3, 3, 3, 3, 3, 3, 3, 3, 3, 3, 3, 3, 3, 3, 3, 3], exponent = None\<rparr>
   = 375299968947541 / 1125899906842624"
  by code_simp

lemma double_third: "double (1 / 3) = 6004799503160661 / 18014398509481984"
  by code_simp

lemma restrict_map_dom_self: "m |` dom m = m"
  by (rule ext) (simp add: restrict_map_def domIff)

lemma output_result_named:
  assumes sep: "CHR ''/'' \<notin> set uuid4"
    and outputs: "[''outputs''] \<notin> dom (files fs)"
    and nodir: "[''outputs'', uuid4 @ ''.json''] \<notin> dirs fs"
  shows "output_result uuid4 result fs =
           Inr (fs\<lparr>dirs := insert [''outputs''] (dirs fs),
                    files := (files fs)([''outputs'', uuid4 @ ''.json''] \<mapsto> result)\<rparr>)"
proof -
  let ?p = "[''outputs'', uuid4 @ ''.json'']"
  have path: "Path (''outputs/'' @ uuid4 @ ''.json'') = ?p"
    using sep by (rule Path_outputs_uuid)
  have mk: "mkdir [''outputs''] fs = Inr (fs\<lparr>dirs := insert [''outputs''] (dirs fs)\<rparr>)"
    using outputs by (simp add: mkdir_def ancestors_def)
  have wr: "open_write ?p result (fs\<lparr>dirs := insert [''outputs''] (dirs fs)\<rparr>)
              = Inr (fs\<lparr>dirs := insert [''outputs''] (dirs fs),
                         files := (files fs)(?p \<mapsto> result)\<rparr>)"
    using outputs nodir by (simp add: open_write_def ancestors_def is_dir_def parent_def)
  show ?thesis
    unfolding output_result_def Let_def path parent_def
    by (simp add: mk wr)
qed

text \<open>
  The random-sampling cell as a whole: when the UUIDs of its iterations differ and are
  fresh, the cell runs to its end, every file that existed before is unchanged, and each
  iteration has left its own result file.
\<close>

lemma random_sampling_writes_results:
  assumes "\<forall>i\<in>set is. CHR ''/'' \<notin> set (uuid4 i)"
    and "inj_on uuid4 (set is)" and "distinct is"
    and "[''outputs''] \<notin> dom (files fs)"
    and "\<forall>i\<in>set is. result_file uuid4 i \<notin> dom (files fs) \<and> result_file uuid4 i \<notin> dirs fs"
  shows "\<exists>fs'. random_sampling find_tbr_hcpb random_sample uuid4 is fs = Inr fs'
           \<and> files fs' |` dom (files fs) = files fs
           \<and> dom (files fs') = dom (files fs) \<union> result_file uuid4 ` set is
           \<and> dirs fs' \<subseteq> insert [''outputs''] (dirs fs)"
  using assms
proof (induction "is" arbitrary: fs)
  case Nil
  then show ?case by (auto simp: restrict_map_dom_self)
next
  case (Cons i "is")
  obtain a b where ab: "random_parameters random_sample i = (a, b)"
    by (cases "random_parameters random_sample i")
  let ?r = "JObj (AList.update ''sample'' (JStr ''random'') (find_tbr_hcpb a b))"
  let ?fs1 = "fs\<lparr>dirs := insert [''outputs''] (dirs fs),
                   files := (files fs)(result_file uuid4 i \<mapsto> ?r)\<rparr>"
  have step: "output_result (uuid4 i) ?r fs = Inr ?fs1"
    using Cons.prems output_result_named [of "uuid4 i" fs ?r]
    by (simp add: result_file_def)
  have other: "result_file uuid4 j \<noteq> result_file uuid4 i" if "j \<in> set is" for j
    using that Cons.prems(2,3) by (auto simp: result_file_def inj_on_def)
  have "\<exists>fs'. random_sampling find_tbr_hcpb random_sample uuid4 is ?fs1 = Inr fs'
           \<and> files fs' |` dom (files ?fs1) = files ?fs1
           \<and> dom (files fs') = dom (files ?fs1) \<union> result_file uuid4 ` set is
           \<and> dirs fs' \<subseteq> insert [''outputs''] (dirs ?fs1)"
  proof (rule Cons.IH)
    show "\<forall>i\<in>set is. CHR ''/'' \<notin> set (uuid4 i)"
      using Cons.prems(1) by simp
    show "inj_on uuid4 (set is)"
      using Cons.prems(2) by (simp add: inj_on_def)
    show "distinct is"
      using Cons.prems(3) by simp
    show "[''outputs''] \<notin> dom (files ?fs1)"
      using Cons.prems(4) by (simp add: result_file_def)
    show "\<forall>j\<in>set is. result_file uuid4 j \<notin> dom (files ?fs1)
                     \<and> result_file uuid4 j \<notin> dirs ?fs1"
      using Cons.prems(5) other by (auto simp: result_file_def)
  qed
  then obtain fs' where
    run: "random_sampling find_tbr_hcpb random_sample uuid4 is ?fs1 = Inr fs'"
    and keep: "files fs' |` dom (files ?fs1) = files ?fs1"
    and dom: "dom (files fs') = dom (files ?fs1) \<union> result_file uuid4 ` set is"
    and dirs: "dirs fs' \<subseteq> insert [''outputs''] (dirs ?fs1)"
    by blast
  have "random_sampling find_tbr_hcpb random_sample uuid4 (i # is) fs = Inr fs'"
    using step run by (simp add: ab)
  moreover have "files fs' |` dom (files fs) = files fs"
  proof (rule ext)
    fix p
    show "(files fs' |` dom (files fs)) p = files fs p"
    proof (cases "p \<in> dom (files fs)")
      case True
      then have "p \<noteq> result_file uuid4 i"
        using Cons.prems(5) by auto
      moreover have "(files fs' |` dom (files ?fs1)) p = files ?fs1 p"
        using keep by simp
      ultimately show ?thesis
        using True by (simp add: restrict_map_def)
    next
      case False
      then show ?thesis
        by (simp add: restrict_map_def domIff)
    qed
  qed
  moreover have "dom (files fs') = dom (files fs) \<union> result_file uuid4 ` set (i # is)"
    using dom by auto
  moreover have "dirs fs' \<subseteq> insert [''outputs''] (dirs fs)"
    using dirs by auto
  ultimately show ?case by blast
qed

lemma random_sampling_cell_writes_results:
  assumes "\<forall>i<number_of_simulations. CHR ''/'' \<notin> set (uuid4 i)"
    and "inj_on uuid4 {..<number_of_simulations}"
    and "[''outputs''] \<notin> dom (files fs)"
    and "\<forall>i<number_of_simulations.
           result_file uuid4 i \<notin> dom (files fs) \<and> result_file uuid4 i \<notin> dirs fs"
  shows "\<exists>fs'. random_sampling_cell find_tbr_hcpb random_sample uuid4 fs = Inr fs'
           \<and> files fs' |` dom (files fs) = files fs
           \<and> dom (files fs')
               = dom (files fs) \<union> result_file uuid4 ` {..<number_of_simulations}"
  unfolding random_sampling_cell_def
  using assms
    random_sampling_writes_results
      [of "[0..<number_of_simulations]" uuid4 fs find_tbr_hcpb random_sample]
  by (auto simp: lessThan_atLeast0)



section \<open>Results\<close>




text \<open>
  C2, as stated: the values the notebooks give to the external library are literals, the
  same in every run. The parameters the random-sampling cell passes to \<open>find_tbr_hcpb\<close>
  follow the generator's draws: two runs with different draws pass different values. And
  the energy filter's bin edges are 200 generated numbers, such as \<open>15000000 / 199\<close>, that
  stand nowhere in the notebook.
\<close>

theorem sampled_parameters_are_not_literals:
  "random_parameters (\<lambda>k. 0) 0 = (0, 1)
   \<and> random_parameters (\<lambda>k. 1 / 2) 0 = (50, 50.5)
   \<and> length energy_filter_values = 200
   \<and> energy_filter_values ! 1 = 15000000 / 199"
  by (simp add: random_parameters_def uniform_def energy_filter_values_def linspace_def)

text \<open>
  C2, amended: besides literals the notebooks pass values they compute. The energy filter
  gets the generated array \<open>np.linspace(0, 15e6, 200)\<close>, 200 evenly spaced bin edges; the
  random-sampling cell passes sampled numbers, the draws scaled to \<open>[0, 100)\<close> and
  \<open>[1, 100)\<close>; the depletion material's volume is the arithmetic result
  \<open>(4/3) * pi * 250^3\<close>, the plasma source's pedestal radius the product \<open>0.8 * 2.92258\<close>,
  and the depletion schedule is built by list arithmetic: ten steps of one year, the
  source rate \<open>1e9\<close> for the first five and zero after. Objects returned by other calls
  are passed on as well: the TBR notebook sets \<open>source.space\<close> to the result of
  \<open>openmc.stats.Point((0, 0, 0))\<close> and opens the statepoint under the name that \<open>run()\<close>
  returned.
\<close>

theorem configuration_values_are_computed:
  assumes "\<forall>k. 0 \<le> random_sample k \<and> random_sample k < 1"
  shows "energy_filter_values = map (\<lambda>i. real i * (15000000 / 199)) [0..<200]
   \<and> random_parameters random_sample i
        = (100 * random_sample (2 * i), 1 + 99 * random_sample (2 * i + 1))
   \<and> 0 \<le> fst (random_parameters random_sample i)
   \<and> fst (random_parameters random_sample i) < 100
   \<and> 1 \<le> snd (random_parameters random_sample i)
   \<and> snd (random_parameters random_sample i) < 100
   \<and> my_material_volume = 62500000 * pi / 3
   \<and> pedestal_radius = 2.338064
   \<and> time_steps = replicate 10 31536000
   \<and> source_rates = replicate 5 1000000000 @ replicate 5 0
   \<and> Call (Some ''source.space'') ''openmc.stats.Point'' [('''', Seq [Num 0, Num 0, Num 0])]
        \<in> set tbr_notebook
   \<and> Call (Some ''sp'') ''openmc.StatePoint'' [('''', Var ''sp_filename'')]
        \<in> set tbr_notebook"
proof -
  have draws: "0 \<le> random_sample (2 * i)" "random_sample (2 * i) < 1"
    "0 \<le> random_sample (2 * i + 1)" "random_sample (2 * i + 1) < 1"
    using assms by auto
  have params: "random_parameters random_sample i
        = (100 * random_sample (2 * i), 1 + 99 * random_sample (2 * i + 1))"
    by (simp add: random_parameters_def uniform_def)
  have "energy_filter_values = map (\<lambda>i. real i * (15000000 / 199)) [0..<200]"
    by (simp add: energy_filter_values_def linspace_def)
  moreover have "my_material_volume = 62500000 * pi / 3" "pedestal_radius = 2.338064"
    by (simp_all add: my_material_volume_def iron_sphere_radius_def pedestal_radius_def)
  moreover have "time_steps = replicate 10 31536000"
    "source_rates = replicate 5 1000000000 @ replicate 5 0"
    by (simp_all add: time_steps_def source_rates_def numeral_eq_Suc)
  moreover have
    "Call (Some ''source.space'') ''openmc.stats.Point'' [('''', Seq [Num 0, Num 0, Num 0])]
       \<in> set tbr_notebook"
    "Call (Some ''sp'') ''openmc.StatePoint'' [('''', Var ''sp_filename'')] \<in> set tbr_notebook"
    by (simp_all add: tbr_notebook_def)
  ultimately show ?thesis
    using draws by (simp add: params)
qed

theorem configuration_values_are_computed_witness:
  "(\<forall>k::nat. (0::real) \<le> 1 / 2 \<and> (1::real) / 2 < 1)
   \<and> random_parameters (\<lambda>k. 1 / 2) 3 = (50, 50.5)
   \<and> fst (random_parameters (\<lambda>k. 1 / 2) 3) < 100
   \<and> time_steps = replicate 10 31536000"
  using configuration_values_are_computed [of "\<lambda>k. 1 / 2" 3]
  by simp



text \<open>
  C5, as stated: every notebook that runs a transport simulation constructs the model's
  objects, calls \<open>run()\<close>, reads the statepoint back through a \<open>StatePoint\<close> reader and
  extracts tallies as tabular data. The neutron-spectra notebook runs and reads back, and
  never extracts a table: it hands the tally objects to \<open>plot_spectrum_from_tally\<close>.
\<close>

theorem neutron_spectra_extracts_no_table:
  "run_and_read_back neutron_spectra_notebook \<noteq> None
   \<and> \<not> follows_interface_sequence neutron_spectra_notebook"
  by code_simp

text \<open>
  C5, amended: every notebook that calls \<open>run()\<close> on a model constructs Material,
  Geometry, Settings, Tally and Source objects and the model before it, keeps the file
  name that \<open>run()\<close> returns, then opens a \<open>StatePoint\<close> and fetches a tally from it. Six
  of the seven notebooks open the returned file name, the 3D mesh notebook the fixed name
  \<open>statepoint.2.h5\<close>. Only the TBR and the DPA notebook extract the tally as a table with
  \<open>get_pandas_dataframe\<close>; the others take a slice of it, pass it to a plotting helper,
  write it to a VTK file or sum its values.
\<close>

theorem simulation_notebooks_run_and_read_back:
  "map read_back_summary simulation_notebooks =
     [Some (''sp_filename'', [Var ''sp_filename''], [''tbr_tally.get_pandas_dataframe'']),
      Some (''sp_filename'', [Var ''sp_filename''], [''tally.get_pandas_dataframe'']),
      Some (''output_filename'', [Var ''output_filename''], [''my_tally.get_slice'']),
      Some (''results_filename'', [Var ''results_filename''], [''plot_spectrum_from_tally'']),
      Some (''sp_filename'', [Str ''statepoint.2.h5''], [''mesh.write_data_to_vtk'']),
      Some (''statepoint_file'', [Var ''statepoint_file''], [''heating_tally.get_values'']),
      Some (''results_filename'', [Var ''results_filename''], [''plot_spectrum_from_tally''])]
   \<and> map follows_interface_sequence simulation_notebooks =
     [True, True, False, False, False, False, False]"
  by code_simp

text \<open>
  C6: the depletion notebook constructs an \<open>openmc.deplete.Operator\<close> on the model and the
  chain file \<open>chain-nndc-b7.1.xml\<close>, gives it to a \<open>PredictorIntegrator\<close> together with the
  time steps and the source rates, runs the integrator, loads the results from the HDF5
  file \<open>depletion_results.h5\<close> and reads them. The schedule has ten steps of one year, the
  source rate \<open>1e9\<close> for the first five and zero for the last five. The operator the
  integrator gets is the second one the cell constructs, on the same chain file and with no
  option given. When the library's runs succeed, \<open>integrate()\<close> writes their results to
  \<open>depletion_results.h5\<close>, and the results the next cell reads back are these, whatever
  the file held before (the name \<open>depletion_results.h5\<close> is not that of a directory).
\<close>

theorem depletion_notebook_interface:
  assumes runs: "deplete (PredictorIntegrator (Operator chain_filename [])
                            (replicate 10 (365 * 24 * 60 * 60))
                            (replicate 5 (10 ^ 9) @ replicate 5 0)) fs
                   = Inr (results, fs1)"
    and nodir: "[''depletion_results.h5''] \<notin> dirs fs1"
  shows "depletion_interface depletion_notebook =
     Some (Some (Str chain_filename), Some (Var ''time_steps''), Some (Var ''source_rates''),
           Some (Str ''depletion_results.h5''))
   \<and> suffix ''.xml'' chain_filename
   \<and> time_steps = replicate 10 (365 * 24 * 60 * 60)
   \<and> source_rates = replicate 5 (10 ^ 9) @ replicate 5 0
   \<and> length time_steps = length source_rates
   \<and> integrate deplete (PredictorIntegrator (Operator chain_filename [])
                           time_steps source_rates) fs
       = Inr (fs1\<lparr>files := (files fs1)([''depletion_results.h5''] \<mapsto> results)\<rparr>)
   \<and> depletion_cells deplete fs
       = Inr (results, fs1\<lparr>files := (files fs1)([''depletion_results.h5''] \<mapsto> results)\<rparr>)"
proof -
  let ?fs2 = "fs1\<lparr>files := (files fs1)([''depletion_results.h5''] \<mapsto> results)\<rparr>"
  have interface: "depletion_interface depletion_notebook =
     Some (Some (Str ''/tasks/task_14_activation_transmutation_depletion/chain-nndc-b7.1.xml''),
           Some (Var ''time_steps''), Some (Var ''source_rates''),
           Some (Str ''depletion_results.h5''))"
    by code_simp
  have xml: "suffix ''.xml'' chain_filename"
    by (simp add: chain_filename_def suffix_def)
  have steps: "time_steps = replicate 10 (365 * 24 * 60 * 60)"
    and rates: "source_rates = replicate 5 (10 ^ 9) @ replicate 5 0"
    by (simp_all add: time_steps_def source_rates_def numeral_eq_Suc)
  have len: "length time_steps = length source_rates"
    by (simp add: time_steps_def source_rates_def)
  have written: "open_write [''depletion_results.h5''] results fs1 = Inr ?fs2"
    using nodir by (simp add: open_write_def ancestors_def is_dir_def parent_def)
  have run: "integrate deplete (PredictorIntegrator (Operator chain_filename [])
                                  time_steps source_rates) fs = Inr ?fs2"
    using runs written by (simp add: integrate_def steps rates)
  have loaded: "from_hdf5 ''depletion_results.h5'' ?fs2 = Inr results"
    by (simp add: from_hdf5_def read_file_def Path_def)
  have cells: "depletion_cells deplete fs = Inr (results, ?fs2)"
    unfolding depletion_cells_def Let_def new_PredictorIntegrator_def
    using len by (simp add: run loaded)
  from interface xml steps rates len run cells show ?thesis
    by (simp add: chain_filename_def)
qed

theorem depletion_notebook_interface_witness:
  "(\<lambda>integrator fs. case integrator of PredictorIntegrator operator timesteps rates \<Rightarrow>
        Inr (length timesteps, fs))
      (PredictorIntegrator (Operator chain_filename [])
         (replicate 10 (365 * 24 * 60 * 60)) (replicate 5 (10 ^ 9) @ replicate 5 0))
      \<lparr>dirs = {}, files = [[''depletion_results.h5''] \<mapsto> 0]\<rparr>
    = (Inr (10, \<lparr>dirs = {}, files = [[''depletion_results.h5''] \<mapsto> 0]\<rparr>)
         :: error + nat \<times> nat filesystem)
   \<and> [''depletion_results.h5'']
        \<notin> dirs \<lparr>dirs = {}, files = [[''depletion_results.h5''] \<mapsto> (0 :: nat)]\<rparr>
   \<and> depletion_cells
        (\<lambda>integrator fs. case integrator of PredictorIntegrator operator timesteps rates \<Rightarrow>
           Inr (length timesteps, fs))
        \<lparr>dirs = {}, files = [[''depletion_results.h5''] \<mapsto> 0]\<rparr>
      = (Inr (10, \<lparr>dirs = {}, files = [[''depletion_results.h5''] \<mapsto> 10]\<rparr>)
           :: error + nat \<times> nat filesystem)"
proof -
  define deplete :: "Integrator \<Rightarrow> nat filesystem \<Rightarrow> error + nat \<times> nat filesystem"
    where "deplete = (\<lambda>integrator fs.
        case integrator of PredictorIntegrator operator timesteps rates \<Rightarrow>
          Inr (length timesteps, fs))"
  let ?fs = "\<lparr>dirs = {}, files = [[''depletion_results.h5''] \<mapsto> (0 :: nat)]\<rparr>"
  have runs: "deplete (PredictorIntegrator (Operator chain_filename [])
                  (replicate 10 (365 * 24 * 60 * 60)) (replicate 5 (10 ^ 9) @ replicate 5 0)) ?fs
                = Inr (10, ?fs)"
    by (simp add: deplete_def)
  have nodir: "[''depletion_results.h5''] \<notin> dirs ?fs"
    by simp
  from depletion_notebook_interface [of deplete ?fs 10 ?fs, OF runs nodir]
  have "depletion_cells deplete ?fs
          = Inr (10, ?fs\<lparr>files := (files ?fs)([''depletion_results.h5''] \<mapsto> 10)\<rparr>)"
    by blast
  then have "depletion_cells deplete ?fs
          = Inr (10, \<lparr>dirs = {}, files = [[''depletion_results.h5''] \<mapsto> 10]\<rparr>)"
    by simp
  with runs nodir show ?thesis
    unfolding deplete_def by blast
qed

text \<open>
  C7: the CAD notebook constructs its paramak shapes from lists of 2D points and an
  operation (two rotations by an angle, four extrusions by a distance), cuts the shape
  \<open>small_Shape\<close> from \<open>my_shape\<close> through the argument \<open>cut\<close>, exports the cut shape to
  \<open>example_shape.stp\<close> and \<open>example_shape.stl\<close> and converts that STL file to the DAGMC
  file \<open>dagmc.h5m\<close>.
\<close>

theorem parametric_shape_notebook_interface:
  "cad_interface parametric_shape_notebook =
     Some ([''rotate'', ''rotate'', ''extrude'', ''extrude'', ''extrude'', ''extrude''],
           (''my_shape'', ''small_Shape''),
           [''example_shape.stp'', ''example_shape.stl'', ''dagmc.h5m''])"
  by code_simp

text \<open>
  C8: in the DPA notebook the printed DPA is the composition of the post-processing steps:
  the sum of the per-nuclide damage-energy means over \<open>2*40\<close>, times the recombination
  factor 0.8, times the neutrons per full-power year
  \<open>3e9 / (17.6e6 * 1.60218e-19) * 60*60*24*365.25\<close>, divided by the number of iron atoms
  \<open>cell_volume * density / (55.845 * 1.66054e-24)\<close>. The cell volume is not zero (a zero
  volume gives no number).
\<close>

theorem DPA_is_composition_of_steps:
  assumes "cell_volume \<noteq> 0"
  shows "DPA means cell_volume =
    Some (((sum_list means / (2 * 40)) * 0.8
            * ((3 * 10 ^ 9 / (17.6 * 10 ^ 6 * (1.60218 / 10 ^ 19))) * 60 * 60 * 24 * 365.25))
          / (cell_volume * density_of_iron_in_g_per_cm3 / (55.845 * (1.66054 / 10 ^ 24))))
    \<and> DPA means cell_volume =
    Some (displacements_per_source_neutron means * 0.8 * number_of_neutrons_per_year
          / number_of_iron_atoms cell_volume)"
proof -
  have nz: "number_of_iron_atoms cell_volume \<noteq> 0"
    using assms by (simp add: number_of_iron_atoms_eq_0_iff)
  have steps: "DPA means cell_volume =
    Some (displacements_per_source_neutron means * 0.8 * number_of_neutrons_per_year
          / number_of_iron_atoms cell_volume)"
    using nz
    by (simp add: DPA_def displacements_for_all_atoms_def
        displacements_per_source_neutron_with_recombination_def mult.commute)
  then have "DPA means cell_volume =
    Some (((sum_list means / (2 * 40)) * 0.8
            * ((3 * 10 ^ 9 / (17.6 * 10 ^ 6 * (1.60218 / 10 ^ 19))) * 60 * 60 * 24 * 365.25))
          / (cell_volume * density_of_iron_in_g_per_cm3 / (55.845 * (1.66054 / 10 ^ 24))))"
    by (simp add: displacements_per_source_neutron_def damage_energy_in_ev_def
        number_of_neutrons_per_year_def number_of_neutrons_per_second_def
        fusion_power_def energy_per_fusion_reaction_def eV_to_Joules_def
        number_of_iron_atoms_def iron_atomic_mass_in_g_def)
  with steps show ?thesis by simp
qed

theorem DPA_is_composition_of_steps_witness:
  "(1::real) \<noteq> 0 \<and> DPA [50, 20, 8, 2] 1 = Some (2709654061086 / 8431225)"
  using DPA_is_composition_of_steps [of 1 "[50, 20, 8, 2]"]
  by (simp add: density_of_iron_in_g_per_cm3_def)

text \<open>
  C9, as stated: no call of the sampling notebook's \<open>output_result\<close> overwrites a result
  file written before. The file is opened in mode \<open>w\<close> under the name that \<open>uuid4\<close>
  gives, and nothing checks that the name is new: of two calls that get the same UUID, the
  first creates \<open>outputs\<close> and writes its result, and the second replaces that result by
  its own.
\<close>

theorem output_result_overwrites_repeated_name:
  "output_result ''1b4e28ba-2fa1-41d2-883f-0016d3cca427''
     (JObj [(''tbr'', JNum 1.1), (''sample'', JStr ''random'')]) empty_fs
     = Inr \<lparr>dirs = {[''outputs'']},
            files = [[''outputs'', ''1b4e28ba-2fa1-41d2-883f-0016d3cca427.json'']
                       \<mapsto> JObj [(''tbr'', JNum 1.1), (''sample'', JStr ''random'')]]\<rparr>
   \<and> output_result ''1b4e28ba-2fa1-41d2-883f-0016d3cca427''
     (JObj [(''tbr'', JNum 0.9), (''sample'', JStr ''random'')])
     \<lparr>dirs = {[''outputs'']},
      files = [[''outputs'', ''1b4e28ba-2fa1-41d2-883f-0016d3cca427.json'']
                 \<mapsto> JObj [(''tbr'', JNum 1.1), (''sample'', JStr ''random'')]]\<rparr>
     = Inr \<lparr>dirs = {[''outputs'']},
            files = [[''outputs'', ''1b4e28ba-2fa1-41d2-883f-0016d3cca427.json'']
                       \<mapsto> JObj [(''tbr'', JNum 0.9), (''sample'', JStr ''random'')]]\<rparr>"
  by (simp add: fs_defs)

text \<open>
  C9, amended: a call of \<open>output_result\<close> writes its result to \<open>outputs/<uuid4>.json\<close>,
  creates the directory \<open>outputs\<close> when it is missing, and leaves every other file as it
  was; a file that already bears the name is overwritten, so the files written before are
  all unchanged exactly when the name is new. The name holds no slash, \<open>outputs\<close> is not
  a regular file and the name is not that of a directory (the call raises otherwise).
\<close>

theorem output_result_writes_named_file:
  assumes sep: "CHR ''/'' \<notin> set uuid4"
    and outputs: "[''outputs''] \<notin> dom (files fs)"
    and nodir: "[''outputs'', uuid4 @ ''.json''] \<notin> dirs fs"
  shows "\<exists>fs'. output_result uuid4 result fs = Inr fs'
           \<and> files fs' = (files fs)([''outputs'', uuid4 @ ''.json''] \<mapsto> result)
           \<and> dirs fs' = insert [''outputs''] (dirs fs)
           \<and> (\<forall>q. q \<noteq> [''outputs'', uuid4 @ ''.json''] \<longrightarrow> files fs' q = files fs q)
           \<and> ([''outputs'', uuid4 @ ''.json''] \<notin> dom (files fs)
                \<longrightarrow> files fs' |` dom (files fs) = files fs)
           \<and> (files fs [''outputs'', uuid4 @ ''.json''] \<noteq> None
                \<and> files fs [''outputs'', uuid4 @ ''.json''] \<noteq> Some result
                \<longrightarrow> files fs' |` dom (files fs) \<noteq> files fs)"
proof -
  let ?p = "[''outputs'', uuid4 @ ''.json'']"
  let ?fs' = "fs\<lparr>dirs := insert [''outputs''] (dirs fs),
                   files := (files fs)(?p \<mapsto> result)\<rparr>"
  have frame: "(files fs)(?p \<mapsto> result) |` dom (files fs) = files fs"
    if "?p \<notin> dom (files fs)"
  proof (rule ext)
    fix q
    show "((files fs)(?p \<mapsto> result) |` dom (files fs)) q = files fs q"
      using that by (cases "q = ?p") (auto simp: restrict_map_def domIff)
  qed
  have changed: "(files fs)(?p \<mapsto> result) |` dom (files fs) \<noteq> files fs"
    if "files fs ?p \<noteq> None" "files fs ?p \<noteq> Some result"
  proof
    assume "(files fs)(?p \<mapsto> result) |` dom (files fs) = files fs"
    then have "((files fs)(?p \<mapsto> result) |` dom (files fs)) ?p = files fs ?p"
      by simp
    with that show False
      by (simp add: restrict_map_def domIff split: if_splits)
  qed
  from assms have "output_result uuid4 result fs = Inr ?fs'"
    by (rule output_result_named)
  with frame changed show ?thesis
    by simp
qed

theorem output_result_writes_named_file_witness:
  "CHR ''/'' \<notin> set ''1b4e28ba-2fa1-41d2-883f-0016d3cca427''
   \<and> [''outputs''] \<notin> dom [[''notes.json''] \<mapsto> JNum 1]
   \<and> [''outputs'', ''1b4e28ba-2fa1-41d2-883f-0016d3cca427'' @ ''.json''] \<notin> {}
   \<and> (\<exists>fs'. output_result ''1b4e28ba-2fa1-41d2-883f-0016d3cca427''
               (JObj [(''tbr'', JNum 1.1), (''sample'', JStr ''random'')])
               \<lparr>dirs = {}, files = [[''notes.json''] \<mapsto> JNum 1]\<rparr>
             = Inr fs'
         \<and> files fs' [''notes.json''] = Some (JNum 1)
         \<and> files fs' [''outputs'', ''1b4e28ba-2fa1-41d2-883f-0016d3cca427.json'']
             = Some (JObj [(''tbr'', JNum 1.1), (''sample'', JStr ''random'')])
         \<and> dirs fs' = {[''outputs'']})"
  using output_result_writes_named_file
    [of "''1b4e28ba-2fa1-41d2-883f-0016d3cca427''"
        "\<lparr>dirs = {}, files = [[''notes.json''] \<mapsto> JNum 1]\<rparr>"
        "JObj [(''tbr'', JNum 1.1), (''sample'', JStr ''random'')]"]
  by auto

text \<open>
  C10, as stated: the plotted curve "True value" equals the stored \<open>tbr\<close> values exactly.
  The stored values pass through \<open>pd.read_json\<close> on their way to the plot, and its decoder
  does not return every float that \<open>json.dump\<close> wrote. For an objective whose value is
  minus the float nearest to one third, each stored \<open>tbr\<close> is that float, written as
  \<open>0.3333333333333333\<close>, and each plotted value is the float \<open>0.33333333333333304\<close>.
\<close>

theorem plotted_true_value_differs_from_stored_tbr:
  "double (1 / 3) = 6004799503160661 / 18014398509481984
   \<and> float_repr (6004799503160661 / 18014398509481984) =
       \<lparr>negative = False, integer_digits = [0],
        fraction_digits = [3, 3, 3, 3, 3, 3, 3, 3, 3, 3, 3, 3, 3, 3, 3, 3], exponent = None\<rparr>
   \<and> pd_read_number (6004799503160661 / 18014398509481984)
       = 375299968947541 / 1125899906842624
   \<and> column ''tbr'' (tbr_values (\<lambda>x. - (6004799503160661 / 18014398509481984)))
       = Inr (replicate 101 (6004799503160661 / 18014398509481984))
   \<and> map_sum id (\<lambda>fig. snd (true_value fig))
        (study_1d (\<lambda>x. - (6004799503160661 / 18014398509481984)) [(''50.0'', - 1.2)]
           pd_read_number empty_fs)
       = Inr (replicate 101 (375299968947541 / 1125899906842624))
   \<and> (375299968947541 / 1125899906842624 :: real) \<noteq> 6004799503160661 / 18014398509481984"
proof -
  let ?objective = "\<lambda>x :: real list. - (6004799503160661 / 18014398509481984 :: real)"
  let ?fs0 = "empty_fs :: json filesystem"
  let ?fs1 = "?fs0\<lparr>dirs := insert [''outputs''] (dirs ?fs0),
                files := (files ?fs0)([''outputs'', ''1d_tbr_values.json'']
                                            \<mapsto> JArr (tbr_values ?objective))\<rparr>"
  let ?fs2 = "?fs1\<lparr>files := (files ?fs1)([''outputs'', ''1d_optimised_values.json'']
                 \<mapsto> JObj (map (\<lambda>(x, y). (x, JNum y)) [(''50.0'', - 1.2)]))\<rparr>"
  have number: "pd_read_number (6004799503160661 / 18014398509481984)
                  = 375299968947541 / 1125899906842624"
    by (simp only: pd_read_number_def float_repr_third decode_numeric_third)
  have cells: "get_true_values_1D ?objective ?fs0 = Inr ?fs1
    \<and> get_optimised_values_1d [(''50.0'', - 1.2)] ?fs1 = Inr ?fs2
    \<and> read_file ''outputs/1d_tbr_values.json'' ?fs2 = Inr (JArr (tbr_values ?objective))
    \<and> read_json pd_read_number ''outputs/1d_tbr_values.json'' ?fs2
           = Inr (map (decoded pd_read_number) (tbr_values ?objective))
    \<and> column ''tbr'' (tbr_values ?objective)
           = Inr (map (\<lambda>x. - ?objective [x]) (linspace 0 100 101))
    \<and> column ''tbr'' (map (decoded pd_read_number) (tbr_values ?objective))
           = Inr (map (\<lambda>x. pd_read_number (- ?objective [x])) (linspace 0 100 101))
    \<and> plot_1d_optimisation pd_read_number ?fs2 =
      Inr \<lparr>printed = (last (map (\<lambda>i. - snd i) [(''50.0'', - 1.2)]),
                      last (map fst [(''50.0'', - 1.2 :: real)])),
           samples_from_optimisation =
             (map fst [(''50.0'', - 1.2 :: real)], map (\<lambda>i. - snd i) [(''50.0'', - 1.2)]),
           true_value = (map pd_read_number (linspace 0 100 101),
                         map (\<lambda>x. pd_read_number (- ?objective [x])) (linspace 0 100 101))\<rparr>"
    by (rule study_1d_cells) (simp_all add: empty_fs_def)
  have stored: "column ''tbr'' (tbr_values ?objective)
                  = Inr (replicate 101 (6004799503160661 / 18014398509481984))"
    using cells by (simp add: map_replicate_const length_linspace_101)
  have plotted: "map_sum id (\<lambda>fig. snd (true_value fig))
        (study_1d ?objective [(''50.0'', - 1.2)] pd_read_number empty_fs)
       = Inr (replicate 101 (375299968947541 / 1125899906842624))"
    unfolding study_1d_def empty_fs_def [symmetric]
    using cells by (simp add: number map_replicate_const length_linspace_101)
  show ?thesis
    using double_third float_repr_third number stored plotted by simp
qed

text \<open>
  C10, amended: the negations cancel. The sweep stores \<open>tbr = -objective([x])\<close> for the 101
  points of \<open>np.linspace(0, 100, 101)\<close>; the plotting cell reads the file with
  \<open>pd.read_json\<close>, sets \<open>fx = -data['tbr']\<close> and plots \<open>[-i for i in fx]\<close>, so the curve
  "True value" is exactly the column \<open>data['tbr']\<close> of the frame: each stored \<open>tbr\<close> as
  the decoder of \<open>pd.read_json\<close> returns it, whatever that decoder is; the curve is the
  stored values where the decoder returns the floats that were written. The 2D cells print
  \<open>-res.fun\<close> as the maximum TBR, which is the largest of the plotted values
  \<open>-res.func_vals\<close> when \<open>res.fun\<close> is the least of \<open>res.func_vals\<close>. The cells run from
  any file system where \<open>outputs\<close> is not a regular file, the two file names are not
  directories and the learner has collected a sample.
\<close>

theorem plotted_true_value_is_decoded_tbr:
  assumes outputs: "[''outputs''] \<notin> dom (files fs)"
    and nodir: "[''outputs'', ''1d_tbr_values.json''] \<notin> dirs fs"
               "[''outputs'', ''1d_optimised_values.json''] \<notin> dirs fs"
    and samples: "learner_data \<noteq> []"
  shows "\<exists>fs1 fs2 data fig.
           get_true_values_1D objective fs = Inr fs1
         \<and> get_optimised_values_1d learner_data fs1 = Inr fs2
         \<and> read_file ''outputs/1d_tbr_values.json'' fs2 = Inr (JArr (tbr_values objective))
         \<and> column ''tbr'' (tbr_values objective)
             = Inr (map (\<lambda>x. - objective [x]) (linspace 0 100 101))
         \<and> read_json number ''outputs/1d_tbr_values.json'' fs2 = Inr data
         \<and> plot_1d_optimisation number fs2 = Inr fig
         \<and> study_1d objective learner_data number fs = Inr fig
         \<and> column ''tbr'' data = Inr (snd (true_value fig))
         \<and> true_value fig
             = (map number (linspace 0 100 101),
                map (\<lambda>x. number (- objective [x])) (linspace 0 100 101))
         \<and> ((\<forall>v. number v = v) \<longrightarrow>
              column ''tbr'' (tbr_values objective) = Inr (snd (true_value fig)))
         \<and> samples_from_optimisation fig
             = (map fst learner_data, map (\<lambda>i. - snd i) learner_data)
         \<and> print_maximum_tbr res = - res_fun res
         \<and> (func_vals res \<noteq> [] \<and> res_fun res = Min (set (func_vals res))
              \<longrightarrow> print_maximum_tbr res = Max (set (tbr_values_found res)))"
proof -
  define fs1 where "fs1 = fs\<lparr>dirs := insert [''outputs''] (dirs fs),
      files := (files fs)([''outputs'', ''1d_tbr_values.json'']
                            \<mapsto> JArr (tbr_values objective))\<rparr>"
  define fs2 where "fs2 = fs1\<lparr>files := (files fs1)([''outputs'', ''1d_optimised_values.json'']
      \<mapsto> JObj (map (\<lambda>(x, y). (x, JNum y)) learner_data))\<rparr>"
  note cells = study_1d_cells [OF outputs nodir samples fs1_def fs2_def, of number]
  have study: "study_1d objective learner_data number fs = plot_1d_optimisation number fs2"
    using cells by (simp add: study_1d_def)
  have maximum: "print_maximum_tbr res = Max (set (tbr_values_found res))"
    if "func_vals res \<noteq> []" "res_fun res = Min (set (func_vals res))"
    using that by (simp add: print_maximum_tbr_def tbr_values_found_def minus_Min_eq_Max)
  show ?thesis
    using cells study maximum by (simp add: print_maximum_tbr_def)
qed

theorem plotted_true_value_is_decoded_tbr_witness:
  "[''outputs''] \<notin> dom (files (empty_fs :: json filesystem))
   \<and> [''outputs'', ''1d_tbr_values.json''] \<notin> dirs (empty_fs :: json filesystem)
   \<and> [''outputs'', ''1d_optimised_values.json''] \<notin> dirs (empty_fs :: json filesystem)
   \<and> [(''50.0'', - 1.2)] \<noteq> ([] :: (string \<times> real) list)
   \<and> (\<exists>fig. study_1d (\<lambda>x. - 1.1) [(''50.0'', - 1.2)] (\<lambda>v. v) empty_fs = Inr fig
        \<and> snd (true_value fig) = replicate 101 1.1
        \<and> column ''tbr'' (tbr_values (\<lambda>x. - 1.1)) = Inr (snd (true_value fig)))
   \<and> print_maximum_tbr \<lparr>res_x = [50, 60], res_fun = - 1.3, func_vals = [- 1.1, - 1.3],
                           x_iters = [[40, 60], [50, 60]]\<rparr> = 1.3
   \<and> Max (set (tbr_values_found \<lparr>res_x = [50, 60], res_fun = - 1.3,
                 func_vals = [- 1.1, - 1.3], x_iters = [[40, 60], [50, 60]]\<rparr>)) = 1.3"
  using plotted_true_value_is_decoded_tbr [of empty_fs "[(''50.0'', - 1.2)]" "\<lambda>x. - 1.1"
      "\<lambda>v. v"
      "\<lparr>res_x = [50, 60], res_fun = - 1.3, func_vals = [- 1.1, - 1.3],
        x_iters = [[40, 60], [50, 60]]\<rparr>"]
  by (auto simp: empty_fs_def map_replicate_const length_linspace_101 tbr_values_found_def)

end
